theory Spec2Isabelle
  imports Main "HOL-Library.Sublist"
begin

section \<open>The Notepad++ updater: data model\<close>

text \<open>
  The updater is a Python script (\<^verbatim>\<open>src/npp_update.py\<close>) whose functions talk to
  the Windows registry, to the GitHub release feed, to the file system and to a child
  process. Each of these collaborators is a field of the record \<open>world\<close>; what the
  script does to them is recorded in the record \<open>state\<close>, which every effectful
  function takes and returns. A Python exception is a value of the type \<open>error\<close>,
  and a function that may let one escape returns \<open>error + 'a\<close>.
\<close>

subsection \<open>Exceptions\<close>

datatype error =
    RequestException
  | JSONDecodeError
  | ValueError
  | OSError
  | CalledProcessError
  | KeyError
  | TypeError
  | AttributeError
  | InvalidVersion
  | ProtocolError

text \<open>
  \<open>isinstance e c\<close>: an exception raised as \<open>e\<close> is caught by \<^verbatim>\<open>except c\<close>.
  \<^verbatim>\<open>requests.exceptions.RequestException\<close> derives from \<^verbatim>\<open>IOError\<close> (which is
  \<^verbatim>\<open>OSError\<close>, as is \<^verbatim>\<open>WindowsError\<close>); the \<^verbatim>\<open>JSONDecodeError\<close> raised by
  \<^verbatim>\<open>Response.json()\<close> derives from both \<^verbatim>\<open>RequestException\<close> and
  \<^verbatim>\<open>ValueError\<close>; \<^verbatim>\<open>packaging\<close>'s \<^verbatim>\<open>InvalidVersion\<close> derives from
  \<^verbatim>\<open>ValueError\<close>. \<open>ProtocolError\<close> stands for the exceptions of \<^verbatim>\<open>urllib3\<close>
  (\<^verbatim>\<open>ProtocolError\<close>, \<^verbatim>\<open>ReadTimeoutError\<close>), which derive from none of the
  classes the script catches.
\<close>

fun isinstance :: "error \<Rightarrow> error \<Rightarrow> bool" where
  "isinstance JSONDecodeError c = (c = JSONDecodeError \<or> c = RequestException \<or> c = ValueError \<or> c = OSError)"
| "isinstance RequestException c = (c = RequestException \<or> c = OSError)"
| "isinstance InvalidVersion c = (c = InvalidVersion \<or> c = ValueError)"
| "isinstance e c = (c = e)"

subsection \<open>JSON values and the Python operations the script applies to them\<close>

datatype json =
    JNull
  | JBool bool
  | JNum int
  | JStr string
  | JArr "json list"
  | JObj "(string \<times> json) list"

text \<open>\<^verbatim>\<open>obj[key]\<close> with a string key: only a dict can be indexed this way.\<close>

fun getitem :: "json \<Rightarrow> string \<Rightarrow> error + json" where
  "getitem (JObj kvs) k = (case map_of kvs k of None \<Rightarrow> Inl KeyError | Some v \<Rightarrow> Inr v)"
| "getitem _ k = Inl TypeError"

text \<open>\<^verbatim>\<open>x.lstrip('v')\<close>: a string method; every leading \<^verbatim>\<open>v\<close> is removed.\<close>

fun lstrip_v :: "json \<Rightarrow> error + string" where
  "lstrip_v (JStr s) = Inr (dropWhile (\<lambda>c. c = CHR ''v'') s)"
| "lstrip_v _ = Inl AttributeError"

text \<open>\<^verbatim>\<open>x.endswith(sfx)\<close>: a string method.\<close>

fun endswith :: "json \<Rightarrow> string \<Rightarrow> error + bool" where
  "endswith (JStr s) sfx = Inr (suffix sfx s)"
| "endswith _ sfx = Inl AttributeError"

text \<open>\<^verbatim>\<open>for x in v\<close>: the elements of a list, the keys of a dict, the characters of a string.\<close>

fun iterate :: "json \<Rightarrow> error + json list" where
  "iterate (JArr xs) = Inr xs"
| "iterate (JObj kvs) = Inr (map (\<lambda>kv. JStr (fst kv)) kvs)"
| "iterate (JStr s) = Inr (map (\<lambda>c. JStr [c]) s)"
| "iterate _ = Inl TypeError"

text \<open>Truth value of a Python object: \<^verbatim>\<open>not x\<close> holds for \<^verbatim>\<open>None\<close>, zero and empty containers.\<close>

fun truthy :: "json \<Rightarrow> bool" where
  "truthy JNull = False"
| "truthy (JBool b) = b"
| "truthy (JNum n) = (n \<noteq> 0)"
| "truthy (JStr s) = (s \<noteq> [])"
| "truthy (JArr xs) = (xs \<noteq> [])"
| "truthy (JObj kvs) = (kvs \<noteq> [])"

subsection \<open>The collaborators and the effects\<close>

text \<open>The answer to one HTTP request: no answer at all, or a status and a body (\<open>None\<close>: not JSON).\<close>

datatype http_result = ConnectionFailed | Response nat "json option"

text \<open>
  Writing the downloaded bytes: \<^verbatim>\<open>open\<close> may fail; once the file exists, writing to it
  may fail (\<open>CopyFailed\<close>, an \<^verbatim>\<open>OSError\<close>), and so may reading the response stream
  \<^verbatim>\<open>r.raw\<close> (\<open>ReadFailed\<close>, an exception of \<^verbatim>\<open>urllib3\<close>).
\<close>

datatype write_result = Written | OpenFailed | CopyFailed | ReadFailed

text \<open>\<^verbatim>\<open>subprocess.run\<close>: the child could not be started, or it ran and exited with a code.\<close>

datatype proc_result = LaunchFailed | Exited int

record world =
  registry :: "string \<Rightarrow> (string \<Rightarrow> string option) option"
  net :: "nat \<Rightarrow> string \<Rightarrow> http_result"
  write_file :: "string \<Rightarrow> write_result"
  run_proc :: "string list \<Rightarrow> string set \<Rightarrow> proc_result \<times> string set"
  remove_ok :: "nat \<Rightarrow> string \<Rightarrow> bool"

text \<open>
  \<open>registry w path\<close> is the key under \<^verbatim>\<open>HKEY_LOCAL_MACHINE\<close> at \<open>path\<close>, if it
  opens, as a map from value names to string data. \<open>net w n url\<close> answers the request
  to \<open>url\<close> made when \<open>n\<close> requests have been made before it, so two requests to one URL
  may be answered differently. \<open>run_proc w argv fs\<close> runs a child process on the file
  system \<open>fs\<close> and returns the file system it leaves behind. \<open>remove_ok w n path\<close>
  tells whether the call of \<^verbatim>\<open>os.remove(path)\<close> made when \<open>n\<close> such calls have been
  made before it succeeds; it fails, for example, on a file that is still locked.
\<close>

record state =
  requests :: "string list"
  files :: "string set"
  launched :: "string list list"
  removals :: "string list"

text \<open>
  \<open>requests\<close>: the URLs given to \<^verbatim>\<open>requests.get\<close>, oldest first; \<open>files\<close>: the paths
  that exist; \<open>launched\<close>: the argument vectors given to \<^verbatim>\<open>subprocess.run\<close>;
  \<open>removals\<close>: the paths given to \<^verbatim>\<open>os.remove\<close>.
\<close>

definition GITHUB_RELEASES_URL :: string where
  "GITHUB_RELEASES_URL =
     ''https://api.github.com/repos/notepad-plus-plus/notepad-plus-plus/releases/latest''"

section \<open>The installed-version probe\<close>

definition npp_reg_paths :: "string list" where
  "npp_reg_paths =
     [''SOFTWARE'' @ CHR 0x5C # ''WOW6432Node'' @ CHR 0x5C # ''Microsoft'' @ CHR 0x5C # ''Windows''
        @ CHR 0x5C # ''CurrentVersion'' @ CHR 0x5C # ''Uninstall'' @ CHR 0x5C # ''Notepad++'',
      ''SOFTWARE'' @ CHR 0x5C # ''Microsoft'' @ CHR 0x5C # ''Windows''
        @ CHR 0x5C # ''CurrentVersion'' @ CHR 0x5C # ''Uninstall'' @ CHR 0x5C # ''Notepad++'']"

text \<open>
  \<^verbatim>\<open>winreg.QueryValueEx(key, name)[0]\<close> inside \<^verbatim>\<open>with winreg.OpenKey(HKLM, path)\<close>:
  \<open>None\<close> stands for the \<^verbatim>\<open>OSError\<close> that either call raises.
\<close>

definition query_value :: "world \<Rightarrow> string \<Rightarrow> string \<Rightarrow> string option" where
  "query_value w path name = (case registry w path of None \<Rightarrow> None | Some key \<Rightarrow> key name)"

text \<open>The loop of \<^verbatim>\<open>get_arch\<close>: \<^verbatim>\<open>except WindowsError: continue\<close> moves to the next path.\<close>

fun get_arch_loop :: "world \<Rightarrow> string list \<Rightarrow> string option \<times> string" where
  "get_arch_loop w [] = (None, [])"
| "get_arch_loop w (path # paths) =
     (case query_value w path ''DisplayName'' of
        None \<Rightarrow> get_arch_loop w paths
      | Some display_name \<Rightarrow>
          (Some (if sublist ''x64'' display_name then ''x64'' else ''x86''), path))"

definition get_arch :: "world \<Rightarrow> string option \<times> string" where
  "get_arch w = get_arch_loop w npp_reg_paths"

definition get_current_version :: "world \<Rightarrow> string option \<times> string option" where
  "get_current_version w =
     (case get_arch w of
        (None, reg_path) \<Rightarrow> (None, None)
      | (Some arch, reg_path) \<Rightarrow>
          if arch = [] then (None, None)
          else (case query_value w reg_path ''DisplayVersion'' of
                  None \<Rightarrow> (None, None)
                | Some version \<Rightarrow> (Some version, Some arch)))"

section \<open>The release feed\<close>

text \<open>
  \<^verbatim>\<open>requests.get(url, timeout = 10)\<close>: the request is logged, and the world answers it.
  A connection error or a timeout raises \<^verbatim>\<open>RequestException\<close>.
\<close>

definition requests_get :: "world \<Rightarrow> string \<Rightarrow> state \<Rightarrow> (error + nat \<times> json option) \<times> state" where
  "requests_get w url s =
     (case net w (length (requests s)) url of
        ConnectionFailed \<Rightarrow> Inl RequestException
      | Response status body \<Rightarrow> Inr (status, body),
      s\<lparr>requests := requests s @ [url]\<rparr>)"

text \<open>\<^verbatim>\<open>res.raise_for_status()\<close> raises \<^verbatim>\<open>HTTPError\<close> for a 4xx or 5xx status.\<close>

definition raise_for_status :: "nat \<times> json option \<Rightarrow> error + unit" where
  "raise_for_status res = (if 400 \<le> fst res \<and> fst res < 600 then Inl RequestException else Inr ())"

text \<open>\<^verbatim>\<open>res.json()\<close> raises \<^verbatim>\<open>JSONDecodeError\<close> when the body is not JSON.\<close>

definition res_json :: "nat \<times> json option \<Rightarrow> error + json" where
  "res_json res = (case snd res of None \<Rightarrow> Inl JSONDecodeError | Some j \<Rightarrow> Inr j)"

text \<open>
  The statements of \<^verbatim>\<open>get_latest_version\<close> after the request:
  \<^verbatim>\<open>res.raise_for_status(); version = res.json()['tag_name'].lstrip('v'); return str(version)\<close>.
\<close>

definition tag_of_response :: "nat \<times> json option \<Rightarrow> error + string" where
  "tag_of_response res =
     (case raise_for_status res of
        Inl e \<Rightarrow> Inl e
      | Inr _ \<Rightarrow>
          (case res_json res of
             Inl e \<Rightarrow> Inl e
           | Inr j \<Rightarrow>
               (case getitem j ''tag_name'' of
                  Inl e \<Rightarrow> Inl e
                | Inr tag \<Rightarrow> lstrip_v tag)))"

text \<open>
  \<^verbatim>\<open>get_latest_version\<close>: the two handlers turn a \<^verbatim>\<open>RequestException\<close> and a
  \<^verbatim>\<open>ValueError\<close> into \<^verbatim>\<open>None\<close>; any other exception leaves the function.
\<close>

definition get_latest_version :: "world \<Rightarrow> state \<Rightarrow> (error + string option) \<times> state" where
  "get_latest_version w s =
     (case requests_get w GITHUB_RELEASES_URL s of (r, s1) \<Rightarrow>
        (case (case r of Inl e \<Rightarrow> Inl e | Inr res \<Rightarrow> tag_of_response res) of
           Inr version \<Rightarrow> (Inr (Some version), s1)
         | Inl e \<Rightarrow>
             if isinstance e RequestException then (Inr None, s1)
             else if isinstance e ValueError then (Inr None, s1)
             else (Inl e, s1)))"

section \<open>Selecting and downloading the installer\<close>

text \<open>
  The condition of the selection loop, with Python's short-circuit evaluation:
  \<^verbatim>\<open>(asset['name'].endswith(arch + ".exe") and arch == "x64")
     or (asset['name'].endswith("Installer.exe") and arch == "x86")\<close>.
\<close>

definition asset_matches :: "string \<Rightarrow> json \<Rightarrow> error + bool" where
  "asset_matches arch asset =
     (case getitem asset ''name'' of
        Inl e \<Rightarrow> Inl e
      | Inr name \<Rightarrow>
          (case endswith name (arch @ ''.exe'') of
             Inl e \<Rightarrow> Inl e
           | Inr b1 \<Rightarrow>
               if b1 \<and> arch = ''x64'' then Inr True
               else (case getitem asset ''name'' of
                       Inl e \<Rightarrow> Inl e
                     | Inr name2 \<Rightarrow>
                         (case endswith name2 ''Installer.exe'' of
                            Inl e \<Rightarrow> Inl e
                          | Inr b2 \<Rightarrow> Inr (b2 \<and> arch = ''x86'')))))"

text \<open>
  The loop over the assets; its result is the variable \<^verbatim>\<open>download_url\<close> after the
  loop (\<open>JNull\<close> is its initial \<^verbatim>\<open>None\<close>). The first matching asset ends the loop.
\<close>

fun select_download_url :: "string \<Rightarrow> json list \<Rightarrow> error + json" where
  "select_download_url arch [] = Inr JNull"
| "select_download_url arch (asset # assets) =
     (case asset_matches arch asset of
        Inl e \<Rightarrow> Inl e
      | Inr True \<Rightarrow> getitem asset ''browser_download_url''
      | Inr False \<Rightarrow> select_download_url arch assets)"

text \<open>
  From \<^verbatim>\<open>res.raise_for_status()\<close> to the end of the loop:
  \<^verbatim>\<open>assets = res.json()['assets']\<close>, then the selection.
\<close>

definition url_of_response :: "string \<Rightarrow> nat \<times> json option \<Rightarrow> error + json" where
  "url_of_response arch res =
     (case raise_for_status res of
        Inl e \<Rightarrow> Inl e
      | Inr _ \<Rightarrow>
          (case res_json res of
             Inl e \<Rightarrow> Inl e
           | Inr j \<Rightarrow>
               (case getitem j ''assets'' of
                  Inl e \<Rightarrow> Inl e
                | Inr assets \<Rightarrow>
                    (case iterate assets of
                       Inl e \<Rightarrow> Inl e
                     | Inr items \<Rightarrow> select_download_url arch items))))"

definition installer_path :: "string \<Rightarrow> string" where
  "installer_path arch = ''npp_installer_'' @ arch @ ''.exe''"

text \<open>
  The streamed download into \<^verbatim>\<open>filepath\<close>. \<^verbatim>\<open>requests\<close> turns a URL that is not a
  string into text and rejects it (\<^verbatim>\<open>MissingSchema\<close>, \<^verbatim>\<open>InvalidSchema\<close>: both a
  \<^verbatim>\<open>RequestException\<close>) before anything is sent.
\<close>

definition download :: "world \<Rightarrow> json \<Rightarrow> string \<Rightarrow> state \<Rightarrow> (error + string) \<times> state" where
  "download w download_url filepath s =
     (case download_url of
        JStr url \<Rightarrow>
          (case requests_get w url s of
             (Inl e, s1) \<Rightarrow> (Inl e, s1)
           | (Inr r, s1) \<Rightarrow>
               (case raise_for_status r of
                  Inl e \<Rightarrow> (Inl e, s1)
                | Inr _ \<Rightarrow>
                    (case write_file w filepath of
                       Written \<Rightarrow> (Inr filepath, s1\<lparr>files := insert filepath (files s1)\<rparr>)
                     | OpenFailed \<Rightarrow> (Inl OSError, s1)
                     | CopyFailed \<Rightarrow> (Inl OSError, s1\<lparr>files := insert filepath (files s1)\<rparr>)
                     | ReadFailed \<Rightarrow>
                         (Inl ProtocolError, s1\<lparr>files := insert filepath (files s1)\<rparr>))))
      | _ \<Rightarrow> (Inl RequestException, s))"

text \<open>The body of the \<^verbatim>\<open>try\<close> of \<^verbatim>\<open>get_installer\<close>.\<close>

definition get_installer_try :: "world \<Rightarrow> string \<Rightarrow> state \<Rightarrow> (error + string option) \<times> state" where
  "get_installer_try w arch s =
     (case requests_get w GITHUB_RELEASES_URL s of (r, s1) \<Rightarrow>
        (case (case r of Inl e \<Rightarrow> Inl e | Inr res \<Rightarrow> url_of_response arch res) of
           Inl e \<Rightarrow> (Inl e, s1)
         | Inr download_url \<Rightarrow>
             if \<not> truthy download_url then (Inr None, s1)
             else (case download w download_url (installer_path arch) s1 of
                     (Inl e, s2) \<Rightarrow> (Inl e, s2)
                   | (Inr filepath, s2) \<Rightarrow> (Inr (Some filepath), s2))))"

text \<open>
  \<^verbatim>\<open>get_installer\<close>: the handlers for \<^verbatim>\<open>RequestException\<close> and \<^verbatim>\<open>IOError\<close>
  return \<^verbatim>\<open>None\<close>; any other exception leaves the function.
\<close>

definition get_installer :: "world \<Rightarrow> string \<Rightarrow> state \<Rightarrow> (error + string option) \<times> state" where
  "get_installer w arch s =
     (case get_installer_try w arch s of
        (Inr r, s1) \<Rightarrow> (Inr r, s1)
      | (Inl e, s1) \<Rightarrow>
          if isinstance e RequestException then (Inr None, s1)
          else if isinstance e OSError then (Inr None, s1)
          else (Inl e, s1))"

section \<open>Running the installer\<close>

text \<open>
  \<^verbatim>\<open>os.remove(path)\<close> raises \<^verbatim>\<open>OSError\<close> (a \<^verbatim>\<open>PermissionError\<close>, say) when the
  file cannot be deleted, and the file stays.
\<close>

definition os_remove :: "world \<Rightarrow> string \<Rightarrow> state \<Rightarrow> (error + unit) \<times> state" where
  "os_remove w path s =
     (if remove_ok w (length (removals s)) path
      then (Inr (), s\<lparr>files := files s - {path}, removals := removals s @ [path]\<rparr>)
      else (Inl OSError, s\<lparr>removals := removals s @ [path]\<rparr>))"

text \<open>\<^verbatim>\<open>if os.path.exists(path): os.remove(path)\<close>\<close>

definition remove_if_exists :: "world \<Rightarrow> string \<Rightarrow> state \<Rightarrow> (error + unit) \<times> state" where
  "remove_if_exists w path s = (if path \<in> files s then os_remove w path s else (Inr (), s))"

text \<open>
  \<^verbatim>\<open>subprocess.run([path, "/S"], check = True)\<close> raises \<^verbatim>\<open>OSError\<close> when the child
  cannot be started and \<^verbatim>\<open>CalledProcessError\<close> when it exits with a code other than 0.
\<close>

definition subprocess_run :: "world \<Rightarrow> string list \<Rightarrow> state \<Rightarrow> (error + unit) \<times> state" where
  "subprocess_run w argv s =
     (case run_proc w argv (files s) of
        (outcome, fs) \<Rightarrow>
          (case outcome of
             LaunchFailed \<Rightarrow> Inl OSError
           | Exited code \<Rightarrow> if code = 0 then Inr () else Inl CalledProcessError,
           s\<lparr>files := fs, launched := launched s @ [argv]\<rparr>))"

text \<open>
  The body of the \<^verbatim>\<open>try\<close> of \<^verbatim>\<open>run_installer\<close>: the process, then the removal of
  the installer, then \<^verbatim>\<open>return True\<close>.
\<close>

definition run_installer_try :: "world \<Rightarrow> string \<Rightarrow> state \<Rightarrow> (error + bool) \<times> state" where
  "run_installer_try w path s =
     (case subprocess_run w [path, ''/S''] s of
        (Inl e, s1) \<Rightarrow> (Inl e, s1)
      | (Inr _, s1) \<Rightarrow>
          (case remove_if_exists w path s1 of
             (Inl e, s2) \<Rightarrow> (Inl e, s2)
           | (Inr _, s2) \<Rightarrow> (Inr True, s2)))"

text \<open>
  Both handlers of \<^verbatim>\<open>run_installer\<close> remove the installer and \<^verbatim>\<open>return False\<close>; an
  exception raised inside a handler leaves the function. The removal inside the
  \<^verbatim>\<open>try\<close> is covered by \<^verbatim>\<open>except OSError\<close>.
\<close>

definition run_installer :: "world \<Rightarrow> string \<Rightarrow> state \<Rightarrow> (error + bool) \<times> state" where
  "run_installer w path s =
     (case run_installer_try w path s of
        (Inr r, s1) \<Rightarrow> (Inr r, s1)
      | (Inl e, s1) \<Rightarrow>
          if isinstance e CalledProcessError then
            (case remove_if_exists w path s1 of
               (Inl e', s2) \<Rightarrow> (Inl e', s2)
             | (Inr _, s2) \<Rightarrow> (Inr False, s2))
          else if isinstance e OSError then
            (case remove_if_exists w path s1 of
               (Inl e', s2) \<Rightarrow> (Inl e', s2)
             | (Inr _, s2) \<Rightarrow> (Inr False, s2))
          else (Inl e, s1))"

section \<open>Comparing versions\<close>

text \<open>
  \<^verbatim>\<open>packaging.version\<close> is a third-party library outside the source tree, so
  \<^verbatim>\<open>compare_version\<close> takes it as a parameter: \<open>parse\<close> is
  \<^verbatim>\<open>packaging.version.parse\<close>, which raises \<^verbatim>\<open>InvalidVersion\<close> or returns a
  \<^verbatim>\<open>Version\<close>, and \<open>version_lt\<close>, \<open>version_gt\<close> are \<^verbatim>\<open><\<close> and \<^verbatim>\<open>>\<close> on
  \<^verbatim>\<open>Version\<close> objects.
\<close>

record 'v packaging =
  parse :: "string \<Rightarrow> error + 'v"
  version_lt :: "'v \<Rightarrow> 'v \<Rightarrow> bool"
  version_gt :: "'v \<Rightarrow> 'v \<Rightarrow> bool"

definition compare_version :: "'v packaging \<Rightarrow> string \<Rightarrow> string \<Rightarrow> error + int" where
  "compare_version lib current_version latest_version =
     (case parse lib current_version of
        Inl e \<Rightarrow> Inl e
      | Inr v1 \<Rightarrow>
          (case parse lib latest_version of
             Inl e \<Rightarrow> Inl e
           | Inr v2 \<Rightarrow>
               if version_lt lib v1 v2 then Inr (- 1)
               else if version_gt lib v1 v2 then Inr 1
               else Inr 0))"

section \<open>The orchestrator\<close>

text \<open>\<^verbatim>\<open>not x\<close> for an optional string: \<^verbatim>\<open>None\<close> and the empty string are false.\<close>

fun falsy :: "string option \<Rightarrow> bool" where
  "falsy None = True"
| "falsy (Some s) = (s = [])"

text \<open>
  \<^verbatim>\<open>main\<close>: each stage ends the run with its exit code or hands its value to the next.
  \<open>the\<close> reads a variable only after \<open>falsy\<close> has excluded \<^verbatim>\<open>None\<close> for it.
\<close>

definition main :: "'v packaging \<Rightarrow> world \<Rightarrow> state \<Rightarrow> (error + int) \<times> state" where
  "main lib w s =
     (case get_current_version w of (current_version, arch) \<Rightarrow>
        if falsy current_version \<or> falsy arch then (Inr 2, s)
        else (case get_latest_version w s of
                (Inl e, s1) \<Rightarrow> (Inl e, s1)
              | (Inr latest_version, s1) \<Rightarrow>
                  if falsy latest_version then (Inr 3, s1)
                  else (case compare_version lib (the current_version) (the latest_version) of
                          Inl e \<Rightarrow> (Inl e, s1)
                        | Inr result \<Rightarrow>
                            if result < 0 then
                              (case get_installer w (the arch) s1 of
                                 (Inl e, s2) \<Rightarrow> (Inl e, s2)
                               | (Inr installer, s2) \<Rightarrow>
                                   if falsy installer then (Inr 4, s2)
                                   else (case run_installer w (the installer) s2 of
                                           (Inl e, s3) \<Rightarrow> (Inl e, s3)
                                         | (Inr succeed, s3) \<Rightarrow>
                                             (Inr (if succeed then 1 else 5), s3)))
                            else (Inr 0, s1))))"

section \<open>The version library on dotted numeric strings\<close>

text \<open>
  Modelled from the spec: \<^verbatim>\<open>packaging.version.parse\<close> and the ordering of the
  \<^verbatim>\<open>Version\<close> objects it returns are not in the source tree. The spec describes a
  version as parsed from a dotted numeric string such as \<^verbatim>\<open>8.6.3\<close>, ordered by its
  numeric components with missing trailing components read as zero, and an invalid input
  as a parse failure. The model is the library on that fragment: the components are
  read as numbers, the comparison key drops trailing zero components, and keys are
  compared as Python tuples. Every other string is a parse failure here.
\<close>

definition is_digit :: "char \<Rightarrow> bool" where
  "is_digit c = (48 \<le> (of_char c :: nat) \<and> (of_char c :: nat) \<le> 57)"

text \<open>\<^verbatim>\<open>s.split('.')\<close>\<close>

fun split_dots :: "string \<Rightarrow> string list" where
  "split_dots [] = [[]]"
| "split_dots (c # cs) =
     (if c = CHR ''.'' then [] # split_dots cs
      else (case split_dots cs of [] \<Rightarrow> [[c]] | p # ps \<Rightarrow> (c # p) # ps))"

definition int_of_digits :: "string \<Rightarrow> nat" where
  "int_of_digits ds = foldl (\<lambda>n c. 10 * n + ((of_char c :: nat) - 48)) 0 ds"

definition dotted_numeric :: "string \<Rightarrow> bool" where
  "dotted_numeric s = list_all (\<lambda>p. p \<noteq> [] \<and> list_all is_digit p) (split_dots s)"

definition parse_release :: "string \<Rightarrow> error + nat list" where
  "parse_release s =
     (if dotted_numeric s then Inr (map int_of_digits (split_dots s)) else Inl InvalidVersion)"

definition cmpkey :: "nat list \<Rightarrow> nat list" where
  "cmpkey release = rev (dropWhile (\<lambda>x. x = 0) (rev release))"

text \<open>Python's \<^verbatim>\<open><\<close> on tuples of numbers: the first difference decides, a proper prefix is smaller.\<close>

fun tuple_lt :: "nat list \<Rightarrow> nat list \<Rightarrow> bool" where
  "tuple_lt [] [] = False"
| "tuple_lt [] (y # ys) = True"
| "tuple_lt (x # xs) [] = False"
| "tuple_lt (x # xs) (y # ys) = (if x = y then tuple_lt xs ys else x < y)"

definition dotted_packaging :: "(nat list) packaging" where
  "dotted_packaging =
     \<lparr>parse = parse_release,
      version_lt = (\<lambda>v1 v2. tuple_lt (cmpkey v1) (cmpkey v2)),
      version_gt = (\<lambda>v1 v2. tuple_lt (cmpkey v2) (cmpkey v1))\<rparr>"

section \<open>What the specification says, for comparison with the code\<close>

text \<open>
  The comparison as the specification words it: both component sequences are padded with
  zeros to the length of the longer one, and the first position where they differ decides.
\<close>

definition pad :: "nat \<Rightarrow> nat list \<Rightarrow> nat list" where
  "pad n xs = xs @ replicate (n - length xs) 0"

fun componentwise :: "nat list \<Rightarrow> nat list \<Rightarrow> int" where
  "componentwise (x # xs) (y # ys) =
     (if x < y then - 1 else if y < x then 1 else componentwise xs ys)"
| "componentwise _ _ = 0"

definition padded_compare :: "nat list \<Rightarrow> nat list \<Rightarrow> int" where
  "padded_compare a b =
     componentwise (pad (max (length a) (length b)) a) (pad (max (length a) (length b)) b)"

definition components :: "string \<Rightarrow> nat list" where
  "components s = map int_of_digits (split_dots s)"

text \<open>
  The probe as the specification words it: the known paths are tried in order until one
  yields both a display name and a display version.
\<close>

definition yields_both :: "world \<Rightarrow> string \<Rightarrow> bool" where
  "yields_both w path =
     (query_value w path ''DisplayName'' \<noteq> None \<and> query_value w path ''DisplayVersion'' \<noteq> None)"

definition arch_of_name :: "string \<Rightarrow> string" where
  "arch_of_name display_name = (if sublist ''x64'' display_name then ''x64'' else ''x86'')"

definition probe_spec :: "world \<Rightarrow> string option \<times> string option" where
  "probe_spec w =
     (case find (yields_both w) npp_reg_paths of
        None \<Rightarrow> (None, None)
      | Some path \<Rightarrow>
          (query_value w path ''DisplayVersion'',
           map_option arch_of_name (query_value w path ''DisplayName'')))"

text \<open>
  The selection rule as the specification words it, on assets that have a name and a
  download URL: for x64 the name ends with \<^verbatim>\<open>x64.exe\<close>, for x86 with
  \<^verbatim>\<open>Installer.exe\<close>.
\<close>

definition eligible :: "string \<Rightarrow> string \<times> string \<Rightarrow> bool" where
  "eligible arch asset =
     (if arch = ''x64'' then suffix ''x64.exe'' (fst asset)
      else if arch = ''x86'' then suffix ''Installer.exe'' (fst asset)
      else False)"

definition asset_json :: "string \<times> string \<Rightarrow> json" where
  "asset_json asset =
     JObj [(''name'', JStr (fst asset)), (''browser_download_url'', JStr (snd asset))]"

section \<open>Example runs\<close>

definition s0 :: state where
  "s0 = \<lparr>requests = [], files = {}, launched = [], removals = []\<rparr>"

text \<open>A registry with one Notepad++ key, at the second of the known paths.\<close>

definition reg_installed :: "string \<Rightarrow> string \<Rightarrow> string \<Rightarrow> (string \<Rightarrow> string option) option" where
  "reg_installed display_name display_version path =
     (if path = npp_reg_paths ! 1
      then Some [''DisplayName'' \<mapsto> display_name, ''DisplayVersion'' \<mapsto> display_version]
      else None)"

text \<open>A registry whose first known key has a display name only, and whose second has both values.\<close>

definition reg_two_keys :: "string \<Rightarrow> (string \<Rightarrow> string option) option" where
  "reg_two_keys path =
     (if path = npp_reg_paths ! 0 then Some [''DisplayName'' \<mapsto> ''Notepad++ (32-bit x86)'']
      else if path = npp_reg_paths ! 1
      then Some [''DisplayName'' \<mapsto> ''Notepad++ (64-bit x64)'', ''DisplayVersion'' \<mapsto> ''8.6.2'']
      else None)"

definition release_assets :: "(string \<times> string) list" where
  "release_assets =
     [(''npp.8.6.3.Installer.exe'', ''https://example.com/npp.8.6.3.Installer.exe''),
      (''npp.8.6.3.portable.x64.zip'', ''https://example.com/npp.8.6.3.portable.x64.zip''),
      (''npp.8.6.3.Installer.x64.exe'', ''https://example.com/npp.8.6.3.Installer.x64.exe''),
      (''npp.8.6.3.Installer.arm64.exe'', ''https://example.com/npp.8.6.3.Installer.arm64.exe'')]"

definition source_assets :: "(string \<times> string) list" where
  "source_assets = [(''npp.8.6.3.src.zip'', ''https://example.com/npp.8.6.3.src.zip'')]"

text \<open>A feed document with a tag and an asset list, and one with a tag only.\<close>

definition feed :: "string \<Rightarrow> (string \<times> string) list \<Rightarrow> json" where
  "feed tag assets = JObj [(''tag_name'', JStr tag), (''assets'', JArr (map asset_json assets))]"

definition feed_tag_only :: "string \<Rightarrow> json" where
  "feed_tag_only tag = JObj [(''tag_name'', JStr tag)]"

text \<open>
  A world in which every request is answered with status 200: the first with \<open>first\<close>,
  the second with \<open>second\<close>, any later one with a body that is not JSON. Files can be
  written and removed, and the installer leaves the file system as it is and ends with
  \<open>outcome\<close>.
\<close>

definition example_world ::
  "(string \<Rightarrow> (string \<Rightarrow> string option) option) \<Rightarrow> json \<Rightarrow> json \<Rightarrow> proc_result \<Rightarrow> world" where
  "example_world reg first second outcome =
     \<lparr>registry = reg,
      net = (\<lambda>n url. if n = 0 then Response 200 (Some first)
                     else if n = 1 then Response 200 (Some second)
                     else Response 200 None),
      write_file = (\<lambda>path. Written),
      run_proc = (\<lambda>argv fs. (outcome, fs)),
      remove_ok = (\<lambda>n path. True)\<rparr>"

definition world_update :: "proc_result \<Rightarrow> world" where
  "world_update outcome =
     example_world (reg_installed ''Notepad++ (64-bit x64)'' ''4.5.1'')
       (feed_tag_only ''v8.6.3'') (feed ''v8.6.3'' release_assets) outcome"

definition world_up_to_date :: world where
  "world_up_to_date =
     example_world (reg_installed ''Notepad++ (64-bit x64)'' ''8.6'')
       (feed ''v8.6'' release_assets) (feed ''v8.6'' release_assets) (Exited 0)"

definition world_no_match :: world where
  "world_no_match =
     example_world (reg_installed ''Notepad++ (64-bit x64)'' ''4.5.1'')
       (feed ''v8.6.3'' source_assets) (feed ''v8.6.3'' source_assets) (Exited 0)"

definition world_not_installed :: world where
  "world_not_installed =
     example_world (\<lambda>path. None) (feed ''v8.6.3'' release_assets) (feed ''v8.6.3'' release_assets)
       (Exited 0)"

definition world_two_keys :: world where
  "world_two_keys =
     example_world reg_two_keys (feed ''v8.6.3'' release_assets) (feed ''v8.6.3'' release_assets)
       (Exited 0)"

text \<open>The feed answers with status 200 and a JSON document that has no \<^verbatim>\<open>tag_name\<close>.\<close>

definition world_missing_tag :: world where
  "world_missing_tag =
     example_world (reg_installed ''Notepad++ (64-bit x64)'' ''8.6.3'')
       (JObj [(''message'', JStr ''Not Found'')]) (JObj [(''message'', JStr ''Not Found'')])
       (Exited 0)"

text \<open>
  The update is available and the installer exits with code 0, but the installer file
  cannot be deleted: never (\<open>world_locked\<close>), or not at the first attempt
  (\<open>world_locked_once\<close>).
\<close>

definition world_locked :: world where
  "world_locked = (world_update (Exited 0))\<lparr>remove_ok := (\<lambda>n path. False)\<rparr>"

definition world_locked_once :: world where
  "world_locked_once = (world_update (Exited 0))\<lparr>remove_ok := (\<lambda>n path. n \<noteq> 0)\<rparr>"

text \<open>The update is available, but the response stream of the download breaks while it is read.\<close>

definition world_broken_stream :: world where
  "world_broken_stream = (world_update (Exited 0))\<lparr>write_file := (\<lambda>path. ReadFailed)\<rparr>"

text \<open>The feed's tag is not a version number.\<close>

definition world_bad_tag :: world where
  "world_bad_tag =
     example_world (reg_installed ''Notepad++ (64-bit x64)'' ''8.6.3'')
       (feed ''nightly'' release_assets) (feed ''nightly'' release_assets) (Exited 0)"

section \<open>Properties of the version comparison\<close>

lemma cmpkey_Nil: "cmpkey [] = []"
  by (simp add: cmpkey_def)

lemma cmpkey_Cons: "cmpkey (x # xs) = (if x = 0 \<and> cmpkey xs = [] then [] else x # cmpkey xs)"
  by (auto simp: cmpkey_def dropWhile_append dropWhile_eq_Nil_conv)

lemma tuple_lt_Nil_left: "tuple_lt [] k = (k \<noteq> [])"
  by (cases k) simp_all

lemma tuple_lt_Nil_right: "tuple_lt k [] = False"
  by (cases k) simp_all

lemma tuple_lt_irrefl: "\<not> tuple_lt k k"
  by (induction k) simp_all

lemma tuple_lt_asym: "tuple_lt k1 k2 \<Longrightarrow> \<not> tuple_lt k2 k1"
  by (induction k1 k2 rule: tuple_lt.induct) (auto split: if_splits)

lemma tuple_lt_trans: "tuple_lt k1 k2 \<Longrightarrow> tuple_lt k2 k3 \<Longrightarrow> tuple_lt k1 k3"
proof (induction k1 k2 arbitrary: k3 rule: tuple_lt.induct)
  case (4 x xs y ys)
  then show ?case by (cases k3) (auto split: if_splits)
qed (auto simp: tuple_lt_Nil_left tuple_lt_Nil_right)

lemma tuple_lt_total: "\<not> tuple_lt k1 k2 \<Longrightarrow> \<not> tuple_lt k2 k1 \<Longrightarrow> k1 = k2"
  by (induction k1 k2 rule: tuple_lt.induct) (auto split: if_splits)

lemma pad_Nil: "pad (Suc n) [] = 0 # pad n []"
  by (simp add: pad_def)

lemma pad_Cons: "pad (Suc n) (x # xs) = x # pad n xs"
  by (simp add: pad_def)

lemma componentwise_zeros_left:
  "length b \<le> n \<Longrightarrow> componentwise (pad n []) (pad n b) = (if cmpkey b = [] then 0 else - 1)"
proof (induction b arbitrary: n)
  case Nil
  show ?case by (induction n) (simp_all add: pad_def cmpkey_Nil)
next
  case (Cons y ys)
  then obtain m where "n = Suc m" "length ys \<le> m" by (cases n) auto
  with Cons.IH [of m] show ?case by (simp add: pad_Nil pad_Cons cmpkey_Cons)
qed

lemma componentwise_zeros_right:
  "length a \<le> n \<Longrightarrow> componentwise (pad n a) (pad n []) = (if cmpkey a = [] then 0 else 1)"
proof (induction a arbitrary: n)
  case Nil
  show ?case by (induction n) (simp_all add: pad_def cmpkey_Nil)
next
  case (Cons y ys)
  then obtain m where "n = Suc m" "length ys \<le> m" by (cases n) auto
  with Cons.IH [of m] show ?case by (simp add: pad_Nil pad_Cons cmpkey_Cons)
qed

lemma componentwise_pad:
  "length a \<le> n \<Longrightarrow> length b \<le> n \<Longrightarrow>
   componentwise (pad n a) (pad n b) =
     (if tuple_lt (cmpkey a) (cmpkey b) then - 1 else if tuple_lt (cmpkey b) (cmpkey a) then 1 else 0)"
proof (induction a b arbitrary: n rule: list_induct2')
  case 1
  then show ?case using componentwise_zeros_left [of "[]" n] by (simp add: cmpkey_Nil)
next
  case (2 x xs)
  then show ?case
    using componentwise_zeros_right [of "x # xs" n]
    by (simp add: cmpkey_Nil tuple_lt_Nil_left tuple_lt_Nil_right)
next
  case (3 y ys)
  then show ?case
    using componentwise_zeros_left [of "y # ys" n]
    by (simp add: cmpkey_Nil tuple_lt_Nil_left tuple_lt_Nil_right)
next
  case (4 x xs y ys)
  then obtain m where m: "n = Suc m" "length xs \<le> m" "length ys \<le> m" by (cases n) auto
  show ?case using "4.IH" [of m] m
    by (auto simp: pad_Cons cmpkey_Cons tuple_lt_Nil_left tuple_lt_Nil_right)
qed

lemma padded_compare_key:
  "padded_compare a b =
     (if tuple_lt (cmpkey a) (cmpkey b) then - 1 else if tuple_lt (cmpkey b) (cmpkey a) then 1 else 0)"
  unfolding padded_compare_def by (rule componentwise_pad) simp_all

lemma componentwise_eq_0: "length xs = length ys \<Longrightarrow> componentwise xs ys = 0 \<longleftrightarrow> xs = ys"
  by (induction xs ys rule: list_induct2) auto

lemma compare_version_dotted:
  "dotted_numeric a \<Longrightarrow> dotted_numeric b \<Longrightarrow>
   compare_version dotted_packaging a b = Inr (padded_compare (components a) (components b))"
  by (simp add: compare_version_def dotted_packaging_def parse_release_def components_def
      padded_compare_key)

lemmas version_eval =
  compare_version_def dotted_packaging_def parse_release_def dotted_numeric_def is_digit_def
  int_of_digits_def cmpkey_def components_def

text \<open>
  C3. On dotted numeric version strings, \<open>compare_version\<close> is the component-wise numeric
  comparison after padding the shorter sequence with zeros; a version compares equal to
  itself; swapping the arguments negates the result, which is \<open>-1\<close>, \<open>0\<close> or \<open>1\<close>;
  "less" is transitive; the result is \<open>0\<close> exactly when the padded sequences are equal;
  and the four comparisons listed in the specification come out as \<open>-1\<close>, \<open>1\<close>, \<open>0\<close>
  and \<open>0\<close>.
\<close>

theorem compare_version_order:
  assumes "dotted_numeric a" and "dotted_numeric b" and "dotted_numeric c"
  shows "compare_version dotted_packaging a b = Inr (padded_compare (components a) (components b))
    \<and> compare_version dotted_packaging a a = Inr 0
    \<and> (\<exists>r. compare_version dotted_packaging a b = Inr r
           \<and> compare_version dotted_packaging b a = Inr (- r)
           \<and> (r = - 1 \<or> r = 0 \<or> r = 1))
    \<and> (compare_version dotted_packaging a b = Inr (- 1)
         \<and> compare_version dotted_packaging b c = Inr (- 1)
         \<longrightarrow> compare_version dotted_packaging a c = Inr (- 1))
    \<and> (compare_version dotted_packaging a b = Inr 0 \<longleftrightarrow>
         pad (max (length (components a)) (length (components b))) (components a)
         = pad (max (length (components a)) (length (components b))) (components b))
    \<and> compare_version dotted_packaging ''7.1.2'' ''8.6'' = Inr (- 1)
    \<and> compare_version dotted_packaging ''8.9.4'' ''8.5'' = Inr 1
    \<and> compare_version dotted_packaging ''8.6.4'' ''8.6.4'' = Inr 0
    \<and> compare_version dotted_packaging ''8.6'' ''8.6.0'' = Inr 0"
proof -
  let ?cmp = "compare_version dotted_packaging"
  let ?ka = "cmpkey (components a)" and ?kb = "cmpkey (components b)" and ?kc = "cmpkey (components c)"
  have key: "?cmp x y = Inr (if tuple_lt (cmpkey (components x)) (cmpkey (components y)) then - 1
               else if tuple_lt (cmpkey (components y)) (cmpkey (components x)) then 1 else 0)"
    if "dotted_numeric x" "dotted_numeric y" for x y
    using that by (simp add: compare_version_dotted padded_compare_key)
  have c1: "?cmp a b = Inr (padded_compare (components a) (components b))"
    using assms by (simp add: compare_version_dotted)
  have c2: "?cmp a a = Inr 0"
    using assms by (simp add: key tuple_lt_irrefl)
  have c3: "\<exists>r. ?cmp a b = Inr r \<and> ?cmp b a = Inr (- r) \<and> (r = - 1 \<or> r = 0 \<or> r = 1)"
    using assms tuple_lt_asym [of ?ka ?kb] by (auto simp: key)
  have c4: "?cmp a b = Inr (- 1) \<and> ?cmp b c = Inr (- 1) \<longrightarrow> ?cmp a c = Inr (- 1)"
    using assms tuple_lt_trans [of ?ka ?kb ?kc] by (auto simp: key split: if_splits)
  have c5: "?cmp a b = Inr 0 \<longleftrightarrow>
         pad (max (length (components a)) (length (components b))) (components a)
         = pad (max (length (components a)) (length (components b))) (components b)"
    unfolding c1 padded_compare_def
    by (simp add: componentwise_eq_0 pad_def)
  have e1: "?cmp ''7.1.2'' ''8.6'' = Inr (- 1)" by (simp add: version_eval)
  have e2: "?cmp ''8.9.4'' ''8.5'' = Inr 1" by (simp add: version_eval)
  have e3: "?cmp ''8.6.4'' ''8.6.4'' = Inr 0" by (simp add: version_eval)
  have e4: "?cmp ''8.6'' ''8.6.0'' = Inr 0" by (simp add: version_eval)
  from c1 c2 c3 c4 c5 e1 e2 e3 e4 show ?thesis by blast
qed

theorem compare_version_order_witness:
  "dotted_numeric ''8.6'' \<and> dotted_numeric ''8.6.0.0'' \<and> dotted_numeric ''8.10.1''
   \<and> compare_version dotted_packaging ''8.6'' ''8.6.0.0'' = Inr 0
   \<and> compare_version dotted_packaging ''8.6.0.0'' ''8.6'' = Inr 0
   \<and> padded_compare (components ''8.6'') (components ''8.6.0.0'') = 0"
proof -
  have h: "dotted_numeric ''8.6''" "dotted_numeric ''8.6.0.0''" "dotted_numeric ''8.10.1''"
    by (simp_all add: dotted_numeric_def is_digit_def)
  note t = compare_version_order [OF h]
  have p: "pad (max (length (components ''8.6'')) (length (components ''8.6.0.0''))) (components ''8.6'')
      = pad (max (length (components ''8.6'')) (length (components ''8.6.0.0''))) (components ''8.6.0.0'')"
    by (simp add: components_def pad_def int_of_digits_def)
  from t p have eq: "compare_version dotted_packaging ''8.6'' ''8.6.0.0'' = Inr 0" by blast
  from t eq have "compare_version dotted_packaging ''8.6.0.0'' ''8.6'' = Inr 0" by auto
  moreover from t eq have "padded_compare (components ''8.6'') (components ''8.6.0.0'') = 0" by simp
  ultimately show ?thesis using h eq by simp
qed

section \<open>Properties of the probe\<close>

lemma get_arch_loop_find:
  "get_arch_loop w paths =
     (case find (\<lambda>q. query_value w q ''DisplayName'' \<noteq> None) paths of
        None \<Rightarrow> (None, [])
      | Some p \<Rightarrow> (map_option arch_of_name (query_value w p ''DisplayName''), p))"
  by (induction paths) (auto simp: arch_of_name_def)

lemma arch_of_name_nonempty: "arch_of_name n \<noteq> []"
  by (simp add: arch_of_name_def)

lemmas probe_eval =
  get_current_version_def get_arch_def query_value_def npp_reg_paths_def arch_of_name_def
  reg_installed_def reg_two_keys_def example_world_def sublist_Cons_right

text \<open>
  C10. Whenever one of the known registry paths opens and yields a display name, \<open>get_arch\<close>
  returns an architecture together with the first such path: \<open>x64\<close> exactly when that
  path's display name contains \<open>x64\<close>, and \<open>x86\<close> for every other display name.
\<close>

theorem get_arch_determined:
  assumes "path \<in> set npp_reg_paths" and "query_value w path ''DisplayName'' = Some name"
  shows "\<exists>p n. find (\<lambda>q. query_value w q ''DisplayName'' \<noteq> None) npp_reg_paths = Some p
           \<and> query_value w p ''DisplayName'' = Some n
           \<and> get_arch w = (Some (if sublist ''x64'' n then ''x64'' else ''x86''), p)
           \<and> (fst (get_arch w) = Some ''x64'' \<longleftrightarrow> sublist ''x64'' n)
           \<and> (fst (get_arch w) = Some ''x86'' \<longleftrightarrow> \<not> sublist ''x64'' n)"
proof -
  from assms have "find (\<lambda>q. query_value w q ''DisplayName'' \<noteq> None) npp_reg_paths \<noteq> None"
    by (auto simp: find_None_iff)
  then obtain p where p: "find (\<lambda>q. query_value w q ''DisplayName'' \<noteq> None) npp_reg_paths = Some p"
    by auto
  then have "query_value w p ''DisplayName'' \<noteq> None"
    by (auto simp: find_Some_iff)
  then obtain n where n: "query_value w p ''DisplayName'' = Some n" by auto
  from p n have "get_arch w = (Some (if sublist ''x64'' n then ''x64'' else ''x86''), p)"
    by (simp add: get_arch_def get_arch_loop_find arch_of_name_def)
  with p n show ?thesis by auto
qed

theorem get_arch_determined_witness:
  "npp_reg_paths ! 1 \<in> set npp_reg_paths
   \<and> query_value (world_update (Exited 0)) (npp_reg_paths ! 1) ''DisplayName''
       = Some ''Notepad++ (64-bit x64)''
   \<and> get_arch (world_update (Exited 0)) = (Some ''x64'', npp_reg_paths ! 1)
   \<and> get_arch world_two_keys = (Some ''x86'', npp_reg_paths ! 0)"
proof -
  have h1: "npp_reg_paths ! 1 \<in> set npp_reg_paths"
    by (simp add: npp_reg_paths_def)
  have h2: "query_value (world_update (Exited 0)) (npp_reg_paths ! 1) ''DisplayName''
      = Some ''Notepad++ (64-bit x64)''"
    by (simp add: world_update_def probe_eval)
  have h3: "npp_reg_paths ! 0 \<in> set npp_reg_paths"
    by (simp add: npp_reg_paths_def)
  have h4: "query_value world_two_keys (npp_reg_paths ! 0) ''DisplayName''
      = Some ''Notepad++ (32-bit x86)''"
    by (simp add: world_two_keys_def probe_eval)
  have f1: "find (\<lambda>q. query_value (world_update (Exited 0)) q ''DisplayName'' \<noteq> None) npp_reg_paths
      = Some (npp_reg_paths ! 1)"
    by (simp add: world_update_def probe_eval)
  have f2: "find (\<lambda>q. query_value world_two_keys q ''DisplayName'' \<noteq> None) npp_reg_paths
      = Some (npp_reg_paths ! 0)"
    by (simp add: world_two_keys_def probe_eval)
  have x1: "sublist ''x64'' ''Notepad++ (64-bit x64)''" by (simp add: sublist_Cons_right)
  have x2: "\<not> sublist ''x64'' ''Notepad++ (32-bit x86)''" by (simp add: sublist_Cons_right)
  from get_arch_determined [OF h1 h2] f1 h2 x1
  have a1: "get_arch (world_update (Exited 0)) = (Some ''x64'', npp_reg_paths ! 1)" by auto
  from get_arch_determined [OF h3 h4] f2 h4 x2
  have a2: "get_arch world_two_keys = (Some ''x86'', npp_reg_paths ! 0)" by auto
  from h1 h2 a1 a2 show ?thesis by simp
qed

text \<open>
  C8. (amended) The probe takes the first known path that opens and yields a display
  name, derives the architecture from that name, and reads the display version from that
  same path only: it reports no installation when no known path yields a display name, or
  when the chosen path has no display version, without trying the remaining paths.
\<close>

theorem get_current_version_first_named_key:
  "get_current_version w =
     (case find (\<lambda>q. query_value w q ''DisplayName'' \<noteq> None) npp_reg_paths of
        None \<Rightarrow> (None, None)
      | Some p \<Rightarrow>
          (case query_value w p ''DisplayVersion'' of
             None \<Rightarrow> (None, None)
           | Some version \<Rightarrow>
               (Some version, map_option arch_of_name (query_value w p ''DisplayName''))))"
proof (cases "find (\<lambda>q. query_value w q ''DisplayName'' \<noteq> None) npp_reg_paths")
  case None
  then show ?thesis
    by (simp add: get_current_version_def get_arch_def get_arch_loop_find)
next
  case (Some p)
  then have "query_value w p ''DisplayName'' \<noteq> None"
    by (auto simp: find_Some_iff)
  then obtain n where "query_value w p ''DisplayName'' = Some n" by auto
  with Some show ?thesis
    by (simp add: get_current_version_def get_arch_def get_arch_loop_find arch_of_name_nonempty
        split: option.splits)
qed

theorem get_current_version_first_named_key_witness:
  "get_current_version (world_update (Exited 0)) = (Some ''4.5.1'', Some ''x64'')
   \<and> get_current_version world_two_keys = (None, None)
   \<and> get_current_version world_not_installed = (None, None)"
proof -
  have f1: "find (\<lambda>q. query_value (world_update (Exited 0)) q ''DisplayName'' \<noteq> None) npp_reg_paths
      = Some (npp_reg_paths ! 1)"
    by (simp add: world_update_def probe_eval)
  have f2: "find (\<lambda>q. query_value world_two_keys q ''DisplayName'' \<noteq> None) npp_reg_paths
      = Some (npp_reg_paths ! 0)"
    by (simp add: world_two_keys_def probe_eval)
  have f3: "find (\<lambda>q. query_value world_not_installed q ''DisplayName'' \<noteq> None) npp_reg_paths
      = None"
    by (simp add: world_not_installed_def probe_eval)
  have v1: "query_value (world_update (Exited 0)) (npp_reg_paths ! 1) ''DisplayVersion'' = Some ''4.5.1''"
    and n1: "query_value (world_update (Exited 0)) (npp_reg_paths ! 1) ''DisplayName''
      = Some ''Notepad++ (64-bit x64)''"
    by (simp_all add: world_update_def probe_eval)
  have v2: "query_value world_two_keys (npp_reg_paths ! 0) ''DisplayVersion'' = None"
    by (simp add: world_two_keys_def probe_eval)
  have a: "arch_of_name ''Notepad++ (64-bit x64)'' = ''x64''"
    by (simp add: arch_of_name_def sublist_Cons_right)
  note t1 = get_current_version_first_named_key [of "world_update (Exited 0)", unfolded f1]
  note t2 = get_current_version_first_named_key [of world_two_keys, unfolded f2]
  note t3 = get_current_version_first_named_key [of world_not_installed, unfolded f3]
  from t1 t2 t3 v1 n1 v2 a show ?thesis by simp
qed

text \<open>
  C8 as stated fails: when the first known key has a display name but no display version
  and the second key has both, the probe as specified would report the second key's
  version, while \<open>get_current_version\<close> reports no installation.
\<close>

theorem probe_spec_counterexample:
  "get_current_version world_two_keys = (None, None)
   \<and> probe_spec world_two_keys = (Some ''8.6.2'', Some ''x64'')"
  by (simp add: probe_spec_def yields_both_def world_two_keys_def probe_eval)

section \<open>Properties of the orchestrator\<close>

subsection \<open>Auxiliary facts about the stages\<close>

lemma falsy_iff: "falsy x \<longleftrightarrow> x = None \<or> x = Some []"
  by (cases x) auto

lemma not_falsy_iff: "\<not> falsy x \<longleftrightarrow> (\<exists>v. x = Some v \<and> v \<noteq> [])"
  by (cases x) auto

lemma snd_get_latest_version:
  "snd (get_latest_version w s) = s\<lparr>requests := requests s @ [GITHUB_RELEASES_URL]\<rparr>"
  by (simp add: get_latest_version_def requests_get_def split: sum.splits)

lemma get_latest_version_state:
  "get_latest_version w s = (r, s1) \<Longrightarrow> s1 = s\<lparr>requests := requests s @ [GITHUB_RELEASES_URL]\<rparr>"
  using snd_get_latest_version [of w s] by simp

lemma compare_version_range:
  "compare_version lib a b = Inr r \<Longrightarrow> r = - 1 \<or> r = 0 \<or> r = 1"
  by (auto simp: compare_version_def split: sum.splits if_splits)

lemma os_remove_effect:
  "os_remove w path s = (r, s') \<Longrightarrow>
     requests s' = requests s \<and> launched s' = launched s \<and> (r = Inr () \<longrightarrow> path \<notin> files s')"
  by (auto simp: os_remove_def split: if_splits)

lemma remove_if_exists_effect:
  "remove_if_exists w path s = (r, s') \<Longrightarrow>
     requests s' = requests s \<and> launched s' = launched s \<and> (r = Inr () \<longrightarrow> path \<notin> files s')"
  by (auto simp: remove_if_exists_def split: if_splits dest: os_remove_effect)

lemma subprocess_run_effect:
  "subprocess_run w argv s = (r, s') \<Longrightarrow> requests s' = requests s"
  by (auto simp: subprocess_run_def split: prod.splits)

text \<open>When \<open>run_installer\<close> returns, the installer file does not exist.\<close>

lemma run_installer_returned:
  "run_installer w path s = (Inr ok, s') \<Longrightarrow> path \<notin> files s'"
  by (auto simp: run_installer_def run_installer_try_def
      split: prod.splits sum.splits if_splits dest: remove_if_exists_effect)

lemma main_early_exit:
  assumes "\<not> (\<exists>cv a l s1. get_current_version w = (Some cv, Some a)
              \<and> get_latest_version w s = (Inr (Some l), s1) \<and> compare_version lib cv l = Inr (- 1))"
  shows "snd (main lib w s) = s \<or> snd (main lib w s) = s\<lparr>requests := requests s @ [GITHUB_RELEASES_URL]\<rparr>"
proof -
  obtain cur arch where g: "get_current_version w = (cur, arch)" by (cases "get_current_version w")
  obtain rl s1 where gl: "get_latest_version w s = (rl, s1)" by (cases "get_latest_version w s")
  then have s1: "s1 = s\<lparr>requests := requests s @ [GITHUB_RELEASES_URL]\<rparr>"
    by (rule get_latest_version_state)
  show ?thesis
  proof (cases "falsy cur \<or> falsy arch")
    case True
    with g show ?thesis by (simp add: main_def)
  next
    case False
    then obtain cv a where ca: "cur = Some cv" "arch = Some a" by (auto simp: not_falsy_iff)
    show ?thesis
    proof (cases rl)
      case (Inl e)
      with g gl s1 False show ?thesis by (simp add: main_def)
    next
      case (Inr lat)
      show ?thesis
      proof (cases "falsy lat")
        case True
        with g gl s1 False Inr show ?thesis by (simp add: main_def)
      next
        case nf: False
        then obtain l where l: "lat = Some l" by (auto simp: not_falsy_iff)
        from assms g gl ca Inr l have "compare_version lib cv l \<noteq> Inr (- 1)" by simp
        then have "\<And>r. compare_version lib cv l = Inr r \<Longrightarrow> \<not> r < 0"
          using compare_version_range [of lib cv l] by auto
        with g gl s1 False Inr nf ca l show ?thesis
          by (auto simp: main_def split: sum.splits)
      qed
    qed
  qed
qed

lemma asset_matches_asset_json: "asset_matches arch (asset_json a) = Inr (eligible arch a)"
  by (auto simp: asset_matches_def asset_json_def eligible_def)

lemma browser_download_url_asset_json:
  "getitem (asset_json a) ''browser_download_url'' = Inr (JStr (snd a))"
  by (simp add: asset_json_def)

lemma select_download_url_find:
  "select_download_url arch (map asset_json assets) =
     Inr (case find (eligible arch) assets of None \<Rightarrow> JNull | Some a \<Rightarrow> JStr (snd a))"
  by (induction assets)
    (simp_all add: asset_matches_asset_json browser_download_url_asset_json)

lemma url_of_response_assets:
  assumes "status < 400 \<or> 600 \<le> status"
    and "map_of kvs ''assets'' = Some (JArr (map asset_json assets))"
  shows "url_of_response arch (status, Some (JObj kvs)) =
     Inr (case find (eligible arch) assets of None \<Rightarrow> JNull | Some a \<Rightarrow> JStr (snd a))"
  using assms
  by (auto simp: url_of_response_def raise_for_status_def res_json_def select_download_url_find)

lemma get_installer_try_feed:
  assumes "net w (length (requests s)) GITHUB_RELEASES_URL = Response status body"
  shows "get_installer_try w arch s =
     (case url_of_response arch (status, body) of
        Inl e \<Rightarrow> (Inl e, s\<lparr>requests := requests s @ [GITHUB_RELEASES_URL]\<rparr>)
      | Inr download_url \<Rightarrow>
          if \<not> truthy download_url then (Inr None, s\<lparr>requests := requests s @ [GITHUB_RELEASES_URL]\<rparr>)
          else (case download w download_url (installer_path arch)
                       (s\<lparr>requests := requests s @ [GITHUB_RELEASES_URL]\<rparr>) of
                  (Inl e, s2) \<Rightarrow> (Inl e, s2)
                | (Inr filepath, s2) \<Rightarrow> (Inr (Some filepath), s2)))"
  using assms by (simp add: get_installer_try_def requests_get_def)

lemma requests_download:
  "u \<noteq> [] \<Longrightarrow> requests (snd (download w (JStr u) filepath s)) = requests s @ [u]"
  by (simp add: download_def requests_get_def split: http_result.splits sum.splits write_result.splits)

lemma requests_get_installer:
  "requests (snd (get_installer w arch s)) = requests (snd (get_installer_try w arch s))"
  by (simp add: get_installer_def split: prod.splits sum.splits)

lemma requests_download_cases:
  "requests (snd (download w download_url filepath s)) = requests s
   \<or> (\<exists>u. download_url = JStr u \<and> requests (snd (download w download_url filepath s)) = requests s @ [u])"
  by (cases download_url)
    (auto simp: download_def requests_get_def split: http_result.splits sum.splits write_result.splits)

lemma requests_get_installer_cases:
  "requests (snd (get_installer w arch s)) = requests s @ [GITHUB_RELEASES_URL]
   \<or> (\<exists>status body u. net w (length (requests s)) GITHUB_RELEASES_URL = Response status body
        \<and> url_of_response arch (status, body) = Inr (JStr u)
        \<and> requests (snd (get_installer w arch s)) = requests s @ [GITHUB_RELEASES_URL, u])"
proof (cases "net w (length (requests s)) GITHUB_RELEASES_URL")
  case ConnectionFailed
  then show ?thesis
    by (simp add: requests_get_installer get_installer_try_def requests_get_def)
next
  case (Response status body)
  note t = get_installer_try_feed [OF Response, of arch]
  show ?thesis
  proof (cases "url_of_response arch (status, body)")
    case (Inl e)
    with t show ?thesis by (simp add: requests_get_installer)
  next
    case (Inr download_url)
    show ?thesis
    proof (cases "truthy download_url")
      case False
      with t Inr show ?thesis by (simp add: requests_get_installer)
    next
      case True
      let ?s1 = "s\<lparr>requests := requests s @ [GITHUB_RELEASES_URL]\<rparr>"
      from t Inr True
      have r: "requests (snd (get_installer w arch s))
          = requests (snd (download w download_url (installer_path arch) ?s1))"
        by (simp add: requests_get_installer split: prod.splits sum.splits)
      from requests_download_cases [of w download_url "installer_path arch" ?s1]
      show ?thesis using r Response Inr by auto
    qed
  qed
qed

lemma requests_run_installer: "run_installer w path s = (r, s') \<Longrightarrow> requests s' = requests s"
  by (auto simp: run_installer_def run_installer_try_def
      split: prod.splits sum.splits if_splits
      dest!: remove_if_exists_effect subprocess_run_effect)

lemma main_update_branch:
  assumes "get_current_version w = (Some cv, Some a)" and "cv \<noteq> []" and "a \<noteq> []"
    and "get_latest_version w s = (Inr (Some l), s1)" and "l \<noteq> []"
    and "compare_version lib cv l = Inr r" and "r < 0"
  shows "main lib w s =
     (case get_installer w a s1 of
        (Inl e, s2) \<Rightarrow> (Inl e, s2)
      | (Inr installer, s2) \<Rightarrow>
          if falsy installer then (Inr 4, s2)
          else (case run_installer w (the installer) s2 of
                  (Inl e, s3) \<Rightarrow> (Inl e, s3)
                | (Inr succeed, s3) \<Rightarrow> (Inr (if succeed then 1 else 5), s3)))"
  using assms by (simp add: main_def)

lemma requests_main_update:
  assumes "get_current_version w = (Some cv, Some a)" and "cv \<noteq> []" and "a \<noteq> []"
    and "get_latest_version w s = (Inr (Some l), s1)" and "l \<noteq> []"
    and "compare_version lib cv l = Inr r" and "r < 0"
  shows "requests (snd (main lib w s)) = requests (snd (get_installer w a s1))"
  unfolding main_update_branch [OF assms]
  by (cases "get_installer w a s1")
    (auto dest: requests_run_installer split: sum.splits prod.splits)

lemma get_installer_later_net:
  assumes "n < length (requests s)"
  shows "get_installer (w\<lparr>net := (net w)(n := first)\<rparr>) a s = get_installer w a s"
proof -
  have 1: "requests_get (w\<lparr>net := (net w)(n := first)\<rparr>) url s' = requests_get w url s'"
    if "n < length (requests s')" for url s'
    using that by (simp add: requests_get_def)
  have 2: "download (w\<lparr>net := (net w)(n := first)\<rparr>) d f s' = download w d f s'"
    if "n < length (requests s')" for d f s'
    using that by (cases d) (simp_all add: download_def 1 split: prod.splits sum.splits)
  have 3: "snd (requests_get w url s) = s\<lparr>requests := requests s @ [url]\<rparr>" for url
    by (simp add: requests_get_def)
  have "get_installer_try (w\<lparr>net := (net w)(n := first)\<rparr>) a s = get_installer_try w a s"
    using assms 3 [of GITHUB_RELEASES_URL]
    by (auto simp: get_installer_try_def 1 2 split: prod.splits sum.splits)
  then show ?thesis by (simp add: get_installer_def)
qed

lemma run_installer_net: "run_installer (w\<lparr>net := f\<rparr>) p s = run_installer w p s"
proof -
  have a: "remove_if_exists (w\<lparr>net := f\<rparr>) = remove_if_exists w"
    by (intro ext) (simp add: remove_if_exists_def os_remove_def)
  have b: "subprocess_run (w\<lparr>net := f\<rparr>) = subprocess_run w"
    by (intro ext) (simp add: subprocess_run_def)
  show ?thesis unfolding run_installer_def run_installer_try_def a b ..
qed

lemma get_current_version_net: "get_current_version (w\<lparr>net := f\<rparr>) = get_current_version w"
proof -
  have q: "query_value (w\<lparr>net := f\<rparr>) = query_value w"
    by (intro ext) (simp add: query_value_def)
  have "get_arch_loop (w\<lparr>net := f\<rparr>) paths = get_arch_loop w paths" for paths
    by (induction paths) (simp_all add: q split: option.splits)
  then show ?thesis unfolding get_current_version_def get_arch_def q by simp
qed

subsection \<open>The example runs, evaluated\<close>

lemmas world_eval =
  world_update_def world_up_to_date_def world_no_match_def world_not_installed_def
  world_missing_tag_def world_bad_tag_def world_locked_def world_locked_once_def
  world_broken_stream_def example_world_def feed_def feed_tag_only_def
  s0_def

lemmas stage_eval =
  get_latest_version_def requests_get_def tag_of_response_def raise_for_status_def res_json_def
  get_installer_def get_installer_try_def url_of_response_def download_def installer_path_def
  run_installer_def run_installer_try_def subprocess_run_def remove_if_exists_def os_remove_def

lemma world_update_probe:
  "get_current_version (world_update outcome) = (Some ''4.5.1'', Some ''x64'')"
  by (simp add: world_eval probe_eval)

lemma world_update_latest:
  "get_latest_version (world_update outcome) s0
     = (Inr (Some ''8.6.3''), s0\<lparr>requests := [GITHUB_RELEASES_URL]\<rparr>)"
  by (simp add: world_eval stage_eval)

lemma compare_451_863: "compare_version dotted_packaging ''4.5.1'' ''8.6.3'' = Inr (- 1)"
  by (simp add: version_eval)

lemma select_release_assets:
  "find (eligible ''x64'') release_assets
     = Some (''npp.8.6.3.Installer.x64.exe'', ''https://example.com/npp.8.6.3.Installer.x64.exe'')"
  "find (eligible ''x86'') release_assets
     = Some (''npp.8.6.3.Installer.exe'', ''https://example.com/npp.8.6.3.Installer.exe'')"
  "find (eligible ''x64'') source_assets = None"
  by (simp_all add: release_assets_def source_assets_def eligible_def suffix_to_prefix)

lemma world_update_installer:
  "get_installer (world_update outcome) ''x64'' (s0\<lparr>requests := [GITHUB_RELEASES_URL]\<rparr>)
     = (Inr (Some ''npp_installer_x64.exe''),
        \<lparr>requests = [GITHUB_RELEASES_URL, GITHUB_RELEASES_URL,
                     ''https://example.com/npp.8.6.3.Installer.x64.exe''],
         files = {''npp_installer_x64.exe''}, launched = [], removals = []\<rparr>)"
  by (simp add: world_eval stage_eval select_download_url_find select_release_assets)

lemma world_update_run:
  "run_installer (world_update outcome) ''npp_installer_x64.exe''
     \<lparr>requests = rs, files = {''npp_installer_x64.exe''}, launched = [], removals = []\<rparr>
     = (Inr (outcome = Exited 0),
        \<lparr>requests = rs, files = {}, launched = [[''npp_installer_x64.exe'', ''/S'']],
         removals = [''npp_installer_x64.exe'']\<rparr>)"
  by (cases outcome) (simp_all add: world_eval stage_eval)

lemma world_update_main:
  "main dotted_packaging (world_update outcome) s0
     = (Inr (if outcome = Exited 0 then 1 else 5),
        \<lparr>requests = [GITHUB_RELEASES_URL, GITHUB_RELEASES_URL,
                     ''https://example.com/npp.8.6.3.Installer.x64.exe''],
         files = {}, launched = [[''npp_installer_x64.exe'', ''/S'']],
         removals = [''npp_installer_x64.exe'']\<rparr>)"
  unfolding main_update_branch [OF world_update_probe _ _ world_update_latest _ compare_451_863, simplified]
  by (simp add: world_update_installer world_update_run)

subsection \<open>The claims about a run\<close>

text \<open>
  C7. When the probe reports no installation (no version or no architecture), \<open>main\<close>
  returns exit code 2 and leaves the state as it was: no request has been made, no file
  written and no process started.
\<close>

theorem not_installed_exit_2:
  assumes "get_current_version w = (cur, arch)" and "falsy cur \<or> falsy arch"
  shows "main lib w s = (Inr 2, s)"
  using assms by (simp add: main_def)

theorem not_installed_exit_2_witness:
  "get_current_version world_not_installed = (None, None)
   \<and> (falsy None \<or> falsy None)
   \<and> main dotted_packaging world_not_installed s0 = (Inr 2, s0)
   \<and> requests (snd (main dotted_packaging world_not_installed s0)) = []"
proof -
  have h: "get_current_version world_not_installed = (None, None)"
    by (simp add: world_eval probe_eval)
  have f: "falsy None \<or> falsy None" by simp
  from not_installed_exit_2 [OF h f, of dotted_packaging s0] h f show ?thesis
    by (simp add: s0_def)
qed

text \<open>
  What holds of the runs in which \<open>main\<close> returns: the code is 2, 3, 0, 4, 1 or 5, each
  under the outcome of the stage that ends the run.
\<close>

lemma main_returned_code:
  assumes "get_current_version w = (cur, arch)"
  shows "(fst (main lib w s) = Inr c \<longleftrightarrow>
      (c = 2 \<and> (falsy cur \<or> falsy arch))
    \<or> (\<exists>cv a lat s1. cur = Some cv \<and> cv \<noteq> [] \<and> arch = Some a \<and> a \<noteq> []
          \<and> get_latest_version w s = (Inr lat, s1)
          \<and> ((c = 3 \<and> falsy lat)
            \<or> (\<exists>l r. lat = Some l \<and> l \<noteq> [] \<and> compare_version lib cv l = Inr r
                 \<and> ((c = 0 \<and> 0 \<le> r)
                   \<or> (r < 0 \<and> (\<exists>inst s2. get_installer w a s1 = (Inr inst, s2)
                        \<and> ((c = 4 \<and> falsy inst)
                          \<or> (\<exists>p s3. inst = Some p \<and> p \<noteq> []
                               \<and> ((c = 1 \<and> run_installer w p s2 = (Inr True, s3))
                                 \<or> (c = 5 \<and> run_installer w p s2 = (Inr False, s3))))))))))))
    \<and> (fst (main lib w s) = Inr c \<longrightarrow> c \<in> {0, 1, 2, 3, 4, 5})"
proof (cases "falsy cur \<or> falsy arch")
  case True
  with assms show ?thesis by (auto simp: main_def not_falsy_iff)
next
  case False
  then obtain cv a where ca: "cur = Some cv" "cv \<noteq> []" "arch = Some a" "a \<noteq> []"
    by (auto simp: not_falsy_iff)
  obtain rl s1 where gl: "get_latest_version w s = (rl, s1)" by (cases "get_latest_version w s")
  show ?thesis
  proof (cases rl)
    case (Inl e)
    with assms ca gl show ?thesis by (simp add: main_def)
  next
    case (Inr lat)
    show ?thesis
    proof (cases "falsy lat")
      case True
      with assms ca gl Inr show ?thesis by (auto simp: main_def not_falsy_iff)
    next
      case False
      then obtain l where l: "lat = Some l" "l \<noteq> []" by (auto simp: not_falsy_iff)
      show ?thesis
      proof (cases "compare_version lib cv l")
        case (Inl e)
        with assms ca gl \<open>rl = Inr lat\<close> l show ?thesis by (simp add: main_def)
      next
        case cmp: (Inr r)
        show ?thesis
        proof (cases "r < 0")
          case False
          with assms ca gl \<open>rl = Inr lat\<close> l cmp show ?thesis by (simp add: main_def)
        next
          case True
          obtain ri s2 where gi: "get_installer w a s1 = (ri, s2)" by (cases "get_installer w a s1")
          show ?thesis
          proof (cases ri)
            case (Inl e)
            with assms ca gl \<open>rl = Inr lat\<close> l cmp True gi show ?thesis by (simp add: main_def)
          next
            case inst: (Inr inst)
            show ?thesis
            proof (cases "falsy inst")
              case True
              with assms ca gl \<open>rl = Inr lat\<close> l cmp \<open>r < 0\<close> gi inst show ?thesis
                by (auto simp: main_def not_falsy_iff)
            next
              case False
              then obtain p where p: "inst = Some p" "p \<noteq> []" by (auto simp: not_falsy_iff)
              obtain ri s3 where ri: "run_installer w p s2 = (ri, s3)" by (cases "run_installer w p s2")
              show ?thesis
              proof (cases ri)
                case (Inl e)
                with assms ca gl \<open>rl = Inr lat\<close> l cmp \<open>r < 0\<close> gi inst p ri show ?thesis
                  by (simp add: main_def)
              next
                case (Inr ok)
                with assms ca gl \<open>rl = Inr lat\<close> l cmp \<open>r < 0\<close> gi inst p ri show ?thesis
                  by (cases ok) (simp_all add: main_def)
              qed
            qed
          qed
        qed
      qed
    qed
  qed
qed

text \<open>
  C1. Three runs that break the exit-code contract. The feed answers without
  \<open>tag_name\<close>: the latest version is not retrieved, and the run ends with a \<open>KeyError\<close>
  instead of code 3. The response stream of the download breaks: the download fails, and
  the run ends with a \<open>ProtocolError\<close> instead of code 4. The installer exits with code 0
  but the first attempt to delete it fails: the update is installed, and the run ends with
  code 5 instead of 1.
\<close>

theorem exit_code_contract_broken:
  "fst (get_latest_version world_missing_tag s0) = Inl KeyError
   \<and> fst (main dotted_packaging world_missing_tag s0) = Inl KeyError
   \<and> fst (get_installer world_broken_stream ''x64'' (s0\<lparr>requests := [GITHUB_RELEASES_URL]\<rparr>))
       = Inl ProtocolError
   \<and> fst (main dotted_packaging world_broken_stream s0) = Inl ProtocolError
   \<and> fst (run_proc world_locked_once [''npp_installer_x64.exe'', ''/S''] {''npp_installer_x64.exe''})
       = Exited 0
   \<and> fst (main dotted_packaging world_locked_once s0) = Inr 5"
proof -
  have p1: "get_current_version world_missing_tag = (Some ''8.6.3'', Some ''x64'')"
    and p2: "get_current_version world_broken_stream = (Some ''4.5.1'', Some ''x64'')"
    and p3: "get_current_version world_locked_once = (Some ''4.5.1'', Some ''x64'')"
    by (simp_all add: world_eval probe_eval)
  have l1: "get_latest_version world_missing_tag s0
      = (Inl KeyError, s0\<lparr>requests := [GITHUB_RELEASES_URL]\<rparr>)"
    and l2: "get_latest_version world_broken_stream s0
      = (Inr (Some ''8.6.3''), s0\<lparr>requests := [GITHUB_RELEASES_URL]\<rparr>)"
    and l3: "get_latest_version world_locked_once s0
      = (Inr (Some ''8.6.3''), s0\<lparr>requests := [GITHUB_RELEASES_URL]\<rparr>)"
    by (simp_all add: world_eval stage_eval)
  have g2: "get_installer world_broken_stream ''x64'' (s0\<lparr>requests := [GITHUB_RELEASES_URL]\<rparr>)
      = (Inl ProtocolError,
         \<lparr>requests = [GITHUB_RELEASES_URL, GITHUB_RELEASES_URL,
                      ''https://example.com/npp.8.6.3.Installer.x64.exe''],
          files = {''npp_installer_x64.exe''}, launched = [], removals = []\<rparr>)"
    by (simp add: world_eval stage_eval select_download_url_find select_release_assets)
  have g3: "get_installer world_locked_once ''x64'' (s0\<lparr>requests := [GITHUB_RELEASES_URL]\<rparr>)
      = (Inr (Some ''npp_installer_x64.exe''),
         \<lparr>requests = [GITHUB_RELEASES_URL, GITHUB_RELEASES_URL,
                      ''https://example.com/npp.8.6.3.Installer.x64.exe''],
          files = {''npp_installer_x64.exe''}, launched = [], removals = []\<rparr>)"
    by (simp add: world_eval stage_eval select_download_url_find select_release_assets)
  have r3: "run_installer world_locked_once ''npp_installer_x64.exe''
         \<lparr>requests = rs, files = {''npp_installer_x64.exe''}, launched = [], removals = []\<rparr>
      = (Inr False,
         \<lparr>requests = rs, files = {}, launched = [[''npp_installer_x64.exe'', ''/S'']],
          removals = [''npp_installer_x64.exe'', ''npp_installer_x64.exe'']\<rparr>)" for rs
    by (simp add: world_eval stage_eval)
  have m1: "fst (main dotted_packaging world_missing_tag s0) = Inl KeyError"
    by (simp add: main_def p1 l1)
  have m2: "fst (main dotted_packaging world_broken_stream s0) = Inl ProtocolError"
    unfolding main_update_branch [OF p2 _ _ l2 _ compare_451_863, simplified]
    by (simp add: g2)
  have m3: "fst (main dotted_packaging world_locked_once s0) = Inr 5"
    unfolding main_update_branch [OF p3 _ _ l3 _ compare_451_863, simplified]
    by (simp add: g3 r3)
  have e: "fst (run_proc world_locked_once [''npp_installer_x64.exe'', ''/S''] {''npp_installer_x64.exe''})
      = Exited 0"
    by (simp add: world_eval)
  from l1 m1 g2 m2 e m3 show ?thesis by simp
qed

text \<open>
  C4. A run that starts a process, changes a file or makes more than one request has
  compared the installed version as less than the latest one; and when the comparison is
  equal or greater, \<open>main\<close> returns 0 after the single request that fetched the latest
  version, without selecting, downloading or installing anything.
\<close>

theorem no_update_unless_less:
  assumes "main lib w s = (res, s')"
  shows "(launched s' \<noteq> launched s \<or> files s' \<noteq> files s
            \<or> Suc (length (requests s)) < length (requests s')
          \<longrightarrow> (\<exists>cv a l s1. get_current_version w = (Some cv, Some a)
                 \<and> get_latest_version w s = (Inr (Some l), s1)
                 \<and> compare_version lib cv l = Inr (- 1)))
     \<and> (\<forall>cv a l s1 r. get_current_version w = (Some cv, Some a) \<and> cv \<noteq> [] \<and> a \<noteq> []
            \<and> get_latest_version w s = (Inr (Some l), s1) \<and> l \<noteq> []
            \<and> compare_version lib cv l = Inr r \<and> (r = 0 \<or> r = 1)
          \<longrightarrow> res = Inr 0 \<and> s' = s\<lparr>requests := requests s @ [GITHUB_RELEASES_URL]\<rparr>)"
proof (intro conjI impI allI)
  assume a: "launched s' \<noteq> launched s \<or> files s' \<noteq> files s
            \<or> Suc (length (requests s)) < length (requests s')"
  show "\<exists>cv a l s1. get_current_version w = (Some cv, Some a)
                 \<and> get_latest_version w s = (Inr (Some l), s1)
                 \<and> compare_version lib cv l = Inr (- 1)"
  proof (rule ccontr)
    assume "\<not> ?thesis"
    from main_early_exit [OF this] assms a show False by auto
  qed
next
  fix cv a l s1 r
  assume h: "get_current_version w = (Some cv, Some a) \<and> cv \<noteq> [] \<and> a \<noteq> []
            \<and> get_latest_version w s = (Inr (Some l), s1) \<and> l \<noteq> []
            \<and> compare_version lib cv l = Inr r \<and> (r = 0 \<or> r = 1)"
  then have "s1 = s\<lparr>requests := requests s @ [GITHUB_RELEASES_URL]\<rparr>"
    using get_latest_version_state by blast
  with h assms show "res = Inr 0" and "s' = s\<lparr>requests := requests s @ [GITHUB_RELEASES_URL]\<rparr>"
    by (auto simp: main_def)
qed

theorem no_update_unless_less_witness:
  "main dotted_packaging world_up_to_date s0 = (Inr 0, s0\<lparr>requests := [GITHUB_RELEASES_URL]\<rparr>)
   \<and> launched (snd (main dotted_packaging (world_update (Exited 0)) s0)) \<noteq> launched s0
   \<and> (\<exists>cv a l s1. get_current_version (world_update (Exited 0)) = (Some cv, Some a)
         \<and> get_latest_version (world_update (Exited 0)) s0 = (Inr (Some l), s1)
         \<and> compare_version dotted_packaging cv l = Inr (- 1))"
proof -
  have p: "get_current_version world_up_to_date = (Some ''8.6'', Some ''x64'')"
    by (simp add: world_eval probe_eval)
  have l: "get_latest_version world_up_to_date s0
      = (Inr (Some ''8.6''), s0\<lparr>requests := [GITHUB_RELEASES_URL]\<rparr>)"
    by (simp add: world_eval stage_eval)
  have c: "compare_version dotted_packaging ''8.6'' ''8.6'' = Inr 0"
    by (simp add: version_eval)
  have m: "main dotted_packaging world_up_to_date s0
      = (fst (main dotted_packaging world_up_to_date s0), snd (main dotted_packaging world_up_to_date s0))"
    by simp
  from no_update_unless_less [OF m] p l c
  have 1: "main dotted_packaging world_up_to_date s0 = (Inr 0, s0\<lparr>requests := [GITHUB_RELEASES_URL]\<rparr>)"
    by (simp add: prod_eq_iff s0_def)
  have m2: "main dotted_packaging (world_update (Exited 0)) s0
      = (fst (main dotted_packaging (world_update (Exited 0)) s0),
         snd (main dotted_packaging (world_update (Exited 0)) s0))"
    by simp
  have la: "launched (snd (main dotted_packaging (world_update (Exited 0)) s0)) \<noteq> launched s0"
    unfolding world_update_main by (simp add: s0_def)
  from no_update_unless_less [OF m2] la
  have 2: "\<exists>cv a l s1. get_current_version (world_update (Exited 0)) = (Some cv, Some a)
         \<and> get_latest_version (world_update (Exited 0)) s0 = (Inr (Some l), s1)
         \<and> compare_version dotted_packaging cv l = Inr (- 1)"
    by blast
  from 1 la 2 show ?thesis by blast
qed

text \<open>
  C6. Two runs in which the installer exits with code 0 and the installer file cannot be
  deleted. When no attempt succeeds, \<^verbatim>\<open>os.remove\<close> raises inside the \<^verbatim>\<open>try\<close> and again
  inside the handler: \<open>run_installer\<close> and \<open>main\<close> end with an \<open>OSError\<close> and the file is
  still there. When only the first attempt fails, the handler deletes the file and
  \<open>run_installer\<close> returns \<open>False\<close>: \<open>main\<close> returns code 5 after a successful
  installation.
\<close>

theorem installer_file_left_behind:
  "run_installer world_locked ''npp_installer_x64.exe''
       \<lparr>requests = [], files = {''npp_installer_x64.exe''}, launched = [], removals = []\<rparr>
     = (Inl OSError,
        \<lparr>requests = [], files = {''npp_installer_x64.exe''},
         launched = [[''npp_installer_x64.exe'', ''/S'']],
         removals = [''npp_installer_x64.exe'', ''npp_installer_x64.exe'']\<rparr>)
   \<and> fst (main dotted_packaging world_locked s0) = Inl OSError
   \<and> ''npp_installer_x64.exe'' \<in> files (snd (main dotted_packaging world_locked s0))
   \<and> run_installer world_locked_once ''npp_installer_x64.exe''
       \<lparr>requests = [], files = {''npp_installer_x64.exe''}, launched = [], removals = []\<rparr>
     = (Inr False,
        \<lparr>requests = [], files = {},
         launched = [[''npp_installer_x64.exe'', ''/S'']],
         removals = [''npp_installer_x64.exe'', ''npp_installer_x64.exe'']\<rparr>)
   \<and> main dotted_packaging world_locked_once s0
     = (Inr 5,
        \<lparr>requests = [GITHUB_RELEASES_URL, GITHUB_RELEASES_URL,
                     ''https://example.com/npp.8.6.3.Installer.x64.exe''],
         files = {}, launched = [[''npp_installer_x64.exe'', ''/S'']],
         removals = [''npp_installer_x64.exe'', ''npp_installer_x64.exe'']\<rparr>)"
proof -
  let ?rs = "[GITHUB_RELEASES_URL, GITHUB_RELEASES_URL,
              ''https://example.com/npp.8.6.3.Installer.x64.exe'']"
  have p: "get_current_version world_locked = (Some ''4.5.1'', Some ''x64'')"
    "get_current_version world_locked_once = (Some ''4.5.1'', Some ''x64'')"
    by (simp_all add: world_eval probe_eval)
  have l: "get_latest_version world_locked s0
      = (Inr (Some ''8.6.3''), s0\<lparr>requests := [GITHUB_RELEASES_URL]\<rparr>)"
    "get_latest_version world_locked_once s0
      = (Inr (Some ''8.6.3''), s0\<lparr>requests := [GITHUB_RELEASES_URL]\<rparr>)"
    by (simp_all add: world_eval stage_eval)
  have g: "get_installer world_locked ''x64'' (s0\<lparr>requests := [GITHUB_RELEASES_URL]\<rparr>)
      = (Inr (Some ''npp_installer_x64.exe''),
         \<lparr>requests = ?rs, files = {''npp_installer_x64.exe''}, launched = [], removals = []\<rparr>)"
    "get_installer world_locked_once ''x64'' (s0\<lparr>requests := [GITHUB_RELEASES_URL]\<rparr>)
      = (Inr (Some ''npp_installer_x64.exe''),
         \<lparr>requests = ?rs, files = {''npp_installer_x64.exe''}, launched = [], removals = []\<rparr>)"
    by (simp_all add: world_eval stage_eval select_download_url_find select_release_assets)
  have r1: "run_installer world_locked ''npp_installer_x64.exe''
       \<lparr>requests = rs, files = {''npp_installer_x64.exe''}, launched = [], removals = []\<rparr>
     = (Inl OSError,
        \<lparr>requests = rs, files = {''npp_installer_x64.exe''},
         launched = [[''npp_installer_x64.exe'', ''/S'']],
         removals = [''npp_installer_x64.exe'', ''npp_installer_x64.exe'']\<rparr>)" for rs
    by (simp add: world_eval stage_eval)
  have r2: "run_installer world_locked_once ''npp_installer_x64.exe''
       \<lparr>requests = rs, files = {''npp_installer_x64.exe''}, launched = [], removals = []\<rparr>
     = (Inr False,
        \<lparr>requests = rs, files = {},
         launched = [[''npp_installer_x64.exe'', ''/S'']],
         removals = [''npp_installer_x64.exe'', ''npp_installer_x64.exe'']\<rparr>)" for rs
    by (simp add: world_eval stage_eval)
  have m1: "main dotted_packaging world_locked s0
      = (Inl OSError,
         \<lparr>requests = ?rs, files = {''npp_installer_x64.exe''},
          launched = [[''npp_installer_x64.exe'', ''/S'']],
          removals = [''npp_installer_x64.exe'', ''npp_installer_x64.exe'']\<rparr>)"
    unfolding main_update_branch [OF p(1) _ _ l(1) _ compare_451_863, simplified]
    by (simp add: g r1)
  have m2: "main dotted_packaging world_locked_once s0
      = (Inr 5,
         \<lparr>requests = ?rs, files = {},
          launched = [[''npp_installer_x64.exe'', ''/S'']],
          removals = [''npp_installer_x64.exe'', ''npp_installer_x64.exe'']\<rparr>)"
    unfolding main_update_branch [OF p(2) _ _ l(2) _ compare_451_863, simplified]
    by (simp add: g r2)
  from r1 [of "[]"] r2 [of "[]"] m1 m2 show ?thesis by simp
qed

text \<open>
  C5. On a feed whose assets have a name and a download URL, the selection loop yields
  the download URL of the first asset whose name ends with \<open>x64.exe\<close> (for x64) or with
  \<open>Installer.exe\<close> (for x86), and that URL, when not empty, is the one requested next;
  when no asset matches, \<open>get_installer\<close> returns \<open>None\<close> without an exception and
  \<open>main\<close> returns exit code 4.
\<close>

theorem first_matching_asset_selected:
  assumes "net w (length (requests s)) GITHUB_RELEASES_URL = Response status (Some (JObj kvs))"
    and "status < 400 \<or> 600 \<le> status"
    and "map_of kvs ''assets'' = Some (JArr (map asset_json assets))"
  shows "select_download_url arch (map asset_json assets)
           = Inr (case find (eligible arch) assets of None \<Rightarrow> JNull | Some a \<Rightarrow> JStr (snd a))
     \<and> (find (eligible arch) assets = None
          \<longrightarrow> get_installer w arch s = (Inr None, s\<lparr>requests := requests s @ [GITHUB_RELEASES_URL]\<rparr>))
     \<and> (\<forall>a. find (eligible arch) assets = Some a \<and> snd a \<noteq> []
          \<longrightarrow> requests (snd (get_installer w arch s)) = requests s @ [GITHUB_RELEASES_URL, snd a])
     \<and> (\<forall>s_init cv l. get_current_version w = (Some cv, Some arch) \<and> cv \<noteq> [] \<and> arch \<noteq> []
            \<and> get_latest_version w s_init = (Inr (Some l), s) \<and> l \<noteq> []
            \<and> compare_version lib cv l = Inr (- 1) \<and> find (eligible arch) assets = None
          \<longrightarrow> main lib w s_init = (Inr 4, s\<lparr>requests := requests s @ [GITHUB_RELEASES_URL]\<rparr>))"
proof -
  note u = url_of_response_assets [OF assms(2,3), of arch]
  note t = get_installer_try_feed [OF assms(1), of arch, unfolded u]
  have none: "get_installer w arch s = (Inr None, s\<lparr>requests := requests s @ [GITHUB_RELEASES_URL]\<rparr>)"
    if "find (eligible arch) assets = None"
    using that t by (simp add: get_installer_def)
  have some: "requests (snd (get_installer w arch s)) = requests s @ [GITHUB_RELEASES_URL, snd a]"
    if "find (eligible arch) assets = Some a" "snd a \<noteq> []" for a
    using that t requests_download [of "snd a" w "installer_path arch" "s\<lparr>requests := requests s @ [GITHUB_RELEASES_URL]\<rparr>"]
    by (simp add: requests_get_installer split: prod.splits sum.splits)
  have m: "main lib w s_init = (Inr 4, s\<lparr>requests := requests s @ [GITHUB_RELEASES_URL]\<rparr>)"
    if "get_current_version w = (Some cv, Some arch)" "cv \<noteq> []" "arch \<noteq> []"
      "get_latest_version w s_init = (Inr (Some l), s)" "l \<noteq> []"
      "compare_version lib cv l = Inr (- 1)" "find (eligible arch) assets = None" for s_init cv l
    using that none by (simp add: main_def)
  from select_download_url_find none some m show ?thesis by blast
qed

theorem first_matching_asset_selected_witness:
  "net world_no_match (length (requests (s0\<lparr>requests := [GITHUB_RELEASES_URL]\<rparr>))) GITHUB_RELEASES_URL
     = Response 200 (Some (JObj [(''tag_name'', JStr ''v8.6.3''),
                                 (''assets'', JArr (map asset_json source_assets))]))
   \<and> find (eligible ''x64'') source_assets = None
   \<and> get_installer world_no_match ''x64'' (s0\<lparr>requests := [GITHUB_RELEASES_URL]\<rparr>)
       = (Inr None, s0\<lparr>requests := [GITHUB_RELEASES_URL, GITHUB_RELEASES_URL]\<rparr>)
   \<and> main dotted_packaging world_no_match s0
       = (Inr 4, s0\<lparr>requests := [GITHUB_RELEASES_URL, GITHUB_RELEASES_URL]\<rparr>)
   \<and> select_download_url ''x64'' (map asset_json release_assets)
       = Inr (JStr ''https://example.com/npp.8.6.3.Installer.x64.exe'')
   \<and> select_download_url ''x86'' (map asset_json release_assets)
       = Inr (JStr ''https://example.com/npp.8.6.3.Installer.exe'')
   \<and> requests (snd (get_installer (world_update (Exited 0)) ''x64''
                       (s0\<lparr>requests := [GITHUB_RELEASES_URL]\<rparr>)))
       = [GITHUB_RELEASES_URL, GITHUB_RELEASES_URL,
          ''https://example.com/npp.8.6.3.Installer.x64.exe'']"
proof -
  let ?s1 = "s0\<lparr>requests := [GITHUB_RELEASES_URL]\<rparr>"
  let ?kvs = "\<lambda>assets. [(''tag_name'', JStr ''v8.6.3''), (''assets'', JArr (map asset_json assets))]"
  have n: "net world_no_match (length (requests ?s1)) GITHUB_RELEASES_URL
      = Response 200 (Some (JObj (?kvs source_assets)))"
    by (simp add: world_eval)
  have n': "net (world_update (Exited 0)) (length (requests ?s1)) GITHUB_RELEASES_URL
      = Response 200 (Some (JObj (?kvs release_assets)))"
    by (simp add: world_eval)
  have st: "(200::nat) < 400 \<or> (600::nat) \<le> 200" by simp
  have a: "map_of (?kvs assets) ''assets'' = Some (JArr (map asset_json assets))" for assets
    by simp
  have p: "get_current_version world_no_match = (Some ''4.5.1'', Some ''x64'')"
    by (simp add: world_eval probe_eval)
  have l: "get_latest_version world_no_match s0 = (Inr (Some ''8.6.3''), ?s1)"
    by (simp add: world_eval stage_eval)
  note t = first_matching_asset_selected [OF n st a, of "''x64''" dotted_packaging]
  note t64 = first_matching_asset_selected [OF n' st a, of "''x64''" dotted_packaging]
  note t86 = first_matching_asset_selected [OF n' st a, of "''x86''" dotted_packaging]
  from t select_release_assets(3)
  have 1: "get_installer world_no_match ''x64'' ?s1
      = (Inr None, s0\<lparr>requests := [GITHUB_RELEASES_URL, GITHUB_RELEASES_URL]\<rparr>)"
    by (simp add: s0_def)
  from t select_release_assets(3) p l compare_451_863
  have 2: "main dotted_packaging world_no_match s0
      = (Inr 4, s0\<lparr>requests := [GITHUB_RELEASES_URL, GITHUB_RELEASES_URL]\<rparr>)"
    by (simp add: s0_def)
  from t64 have 3: "select_download_url ''x64'' (map asset_json release_assets)
       = Inr (JStr ''https://example.com/npp.8.6.3.Installer.x64.exe'')"
    by (simp add: select_release_assets)
  from t86 have 4: "select_download_url ''x86'' (map asset_json release_assets)
       = Inr (JStr ''https://example.com/npp.8.6.3.Installer.exe'')"
    by (simp add: select_release_assets)
  from t64 have 5: "requests (snd (get_installer (world_update (Exited 0)) ''x64'' ?s1))
       = [GITHUB_RELEASES_URL, GITHUB_RELEASES_URL,
          ''https://example.com/npp.8.6.3.Installer.x64.exe'']"
    by (simp add: select_release_assets s0_def)
  from n select_release_assets(3) 1 2 3 4 5 show ?thesis by simp
qed

text \<open>
  C9. In a run that reaches the download stage the first two requests go to the release
  feed, one made by \<open>get_latest_version\<close> and one by \<open>get_installer\<close>; a third request,
  if there is one, goes to the URL selected from the answer to the second; and replacing
  the answer to the first request by any other that yields the same latest version does not
  change the run.
\<close>

theorem feed_requested_twice:
  assumes "get_current_version w = (Some cv, Some a)" and "cv \<noteq> []" and "a \<noteq> []"
    and "get_latest_version w s = (Inr (Some l), s1)" and "l \<noteq> []"
    and "compare_version lib cv l = Inr r" and "r < 0"
  shows "(\<exists>rest. requests (snd (main lib w s))
              = requests s @ [GITHUB_RELEASES_URL, GITHUB_RELEASES_URL] @ rest
           \<and> (rest = []
              \<or> (\<exists>status body u. rest = [u]
                   \<and> net w (Suc (length (requests s))) GITHUB_RELEASES_URL = Response status body
                   \<and> url_of_response a (status, body) = Inr (JStr u))))
     \<and> (\<forall>first. get_latest_version (w\<lparr>net := (net w)(length (requests s) := first)\<rparr>) s
                  = get_latest_version w s
          \<longrightarrow> main lib (w\<lparr>net := (net w)(length (requests s) := first)\<rparr>) s = main lib w s)"
proof (intro conjI allI impI)
  from assms(4) have s1: "s1 = s\<lparr>requests := requests s @ [GITHUB_RELEASES_URL]\<rparr>"
    by (rule get_latest_version_state)
  note m = requests_main_update [OF assms]
  from requests_get_installer_cases [of w a s1]
  show "\<exists>rest. requests (snd (main lib w s))
              = requests s @ [GITHUB_RELEASES_URL, GITHUB_RELEASES_URL] @ rest
           \<and> (rest = []
              \<or> (\<exists>status body u. rest = [u]
                   \<and> net w (Suc (length (requests s))) GITHUB_RELEASES_URL = Response status body
                   \<and> url_of_response a (status, body) = Inr (JStr u)))"
    unfolding m s1 by auto
next
  fix first
  let ?w = "w\<lparr>net := (net w)(length (requests s) := first)\<rparr>"
  assume e: "get_latest_version ?w s = get_latest_version w s"
  from assms(4) have s1: "s1 = s\<lparr>requests := requests s @ [GITHUB_RELEASES_URL]\<rparr>"
    by (rule get_latest_version_state)
  have gi: "get_installer ?w a s1 = get_installer w a s1"
    by (rule get_installer_later_net) (simp add: s1)
  have "main lib ?w s =
     (case get_installer ?w a s1 of
        (Inl e, s2) \<Rightarrow> (Inl e, s2)
      | (Inr installer, s2) \<Rightarrow>
          if falsy installer then (Inr 4, s2)
          else (case run_installer ?w (the installer) s2 of
                  (Inl e, s3) \<Rightarrow> (Inl e, s3)
                | (Inr succeed, s3) \<Rightarrow> (Inr (if succeed then 1 else 5), s3)))"
    using assms e by (intro main_update_branch) (simp_all add: get_current_version_net)
  then show "main lib ?w s = main lib w s"
    unfolding main_update_branch [OF assms] gi
    by (simp add: run_installer_net split: prod.splits sum.splits)
qed

theorem feed_requested_twice_witness:
  "get_current_version (world_update (Exited 0)) = (Some ''4.5.1'', Some ''x64'')
   \<and> get_latest_version (world_update (Exited 0)) s0
       = (Inr (Some ''8.6.3''), s0\<lparr>requests := [GITHUB_RELEASES_URL]\<rparr>)
   \<and> compare_version dotted_packaging ''4.5.1'' ''8.6.3'' = Inr (- 1)
   \<and> take 2 (requests (snd (main dotted_packaging (world_update (Exited 0)) s0)))
       = [GITHUB_RELEASES_URL, GITHUB_RELEASES_URL]
   \<and> main dotted_packaging
        ((world_update (Exited 0))
           \<lparr>net := (net (world_update (Exited 0)))
                     (0 := \<lambda>url. Response 200 (Some (feed ''v8.6.3'' source_assets)))\<rparr>) s0
       = main dotted_packaging (world_update (Exited 0)) s0"
proof -
  let ?w = "world_update (Exited 0)"
  let ?first = "\<lambda>url :: string. Response 200 (Some (feed ''v8.6.3'' source_assets))"
  have ne: "''4.5.1'' \<noteq> []" "''x64'' \<noteq> []" "''8.6.3'' \<noteq> []" "(- 1 :: int) < 0"
    by simp_all
  note t = feed_requested_twice [OF world_update_probe [of "Exited 0"] ne(1,2)
      world_update_latest [of "Exited 0"] ne(3) compare_451_863 ne(4)]
  have e: "get_latest_version (?w\<lparr>net := (net ?w)(length (requests s0) := ?first)\<rparr>) s0
      = get_latest_version ?w s0"
    by (simp add: world_eval stage_eval)
  from t have 1: "take 2 (requests (snd (main dotted_packaging ?w s0)))
       = [GITHUB_RELEASES_URL, GITHUB_RELEASES_URL]"
    by (auto simp: s0_def)
  from t e have 2: "main dotted_packaging (?w\<lparr>net := (net ?w)(length (requests s0) := ?first)\<rparr>) s0
      = main dotted_packaging ?w s0"
    by blast
  have z: "length (requests s0) = 0" by (simp add: s0_def)
  from 1 2 world_update_probe world_update_latest compare_451_863 show ?thesis
    unfolding z by simp
qed

text \<open>
  C2. Two runs in which an exception leaves \<open>main\<close>: the feed answers with a JSON
  document without \<open>tag_name\<close>, and \<open>get_latest_version\<close> lets the \<open>KeyError\<close> pass;
  the feed's tag is not a version number, and \<open>compare_version\<close> lets the
  \<open>InvalidVersion\<close> pass.
\<close>

theorem main_uncaught_exceptions:
  "main dotted_packaging world_missing_tag s0 = (Inl KeyError, s0\<lparr>requests := [GITHUB_RELEASES_URL]\<rparr>)
   \<and> main dotted_packaging world_bad_tag s0
       = (Inl InvalidVersion, s0\<lparr>requests := [GITHUB_RELEASES_URL]\<rparr>)"
proof -
  have p1: "get_current_version world_missing_tag = (Some ''8.6.3'', Some ''x64'')"
    and p2: "get_current_version world_bad_tag = (Some ''8.6.3'', Some ''x64'')"
    by (simp_all add: world_eval probe_eval)
  have l1: "get_latest_version world_missing_tag s0
      = (Inl KeyError, s0\<lparr>requests := [GITHUB_RELEASES_URL]\<rparr>)"
    and l2: "get_latest_version world_bad_tag s0
      = (Inr (Some ''nightly''), s0\<lparr>requests := [GITHUB_RELEASES_URL]\<rparr>)"
    by (simp_all add: world_eval stage_eval)
  have c: "compare_version dotted_packaging ''8.6.3'' ''nightly'' = Inl InvalidVersion"
    by (simp add: version_eval)
  show ?thesis by (simp add: main_def p1 p2 l1 l2 c)
qed

end
